theory Spec2Isabelle
  imports Complex_Main "HOL-Library.State_Monad" "HOL-Library.Monad_Syntax" "HOL-Library.Sublist"
begin

unbundle bit_operations_syntax

section \<open>Python values, dictionaries and exceptions\<close>

text \<open>
  The repository passes messages, database rows and analysis results around as Python
  dictionaries. A dictionary is an association list from string keys to values; lookup
  takes the first binding of a key. Floats are idealised as reals. Strings are ASCII
  texts, so \<open>str.encode()\<close> is the identity on them.
\<close>

datatype pyval =
    PNone
  | PBool bool
  | PInt int
  | PFloat real
  | PStr string
  | PList "pyval list"
  | PDict "(string \<times> pyval) list"

type_synonym pydict = "(string \<times> pyval) list"

datatype error =
    KeyError string
  | TypeError
  | AttributeError
  | NameError string
  | Raised string

text \<open>\<open>d.get(k, default)\<close>\<close>

definition dict_get :: "pydict \<Rightarrow> string \<Rightarrow> pyval \<Rightarrow> pyval" where
  "dict_get d k dflt = (case map_of d k of None \<Rightarrow> dflt | Some v \<Rightarrow> v)"

text \<open>\<open>x[k]\<close> for a string key: KeyError on a dictionary without the key, TypeError on
  a value that is not a dictionary.\<close>

fun py_getitem :: "pyval \<Rightarrow> string \<Rightarrow> error + pyval" where
  "py_getitem (PDict d) k = (case map_of d k of None \<Rightarrow> Inl (KeyError k) | Some v \<Rightarrow> Inr v)"
| "py_getitem _ k = Inl TypeError"

text \<open>Truth value of an object in \<open>if x:\<close> and \<open>while x and ...\<close>.\<close>

fun truthy :: "pyval \<Rightarrow> bool" where
  "truthy PNone = False"
| "truthy (PBool b) = b"
| "truthy (PInt i) = (i \<noteq> 0)"
| "truthy (PFloat r) = (r \<noteq> 0)"
| "truthy (PStr s) = (s \<noteq> [])"
| "truthy (PList xs) = (xs \<noteq> [])"
| "truthy (PDict d) = (d \<noteq> [])"

text \<open>\<open>a == b\<close>: numbers compare by value across bool, int and float; anything else
  structurally.\<close>

fun py_num :: "pyval \<Rightarrow> real option" where
  "py_num (PBool b) = Some (if b then 1 else 0)"
| "py_num (PInt i) = Some (of_int i)"
| "py_num (PFloat r) = Some r"
| "py_num _ = None"

definition py_eq :: "pyval \<Rightarrow> pyval \<Rightarrow> bool" where
  "py_eq a b = (case (py_num a, py_num b) of (Some x, Some y) \<Rightarrow> x = y | _ \<Rightarrow> a = b)"

text \<open>The keys of a dictionary value (empty for anything else).\<close>

fun py_keys :: "pyval \<Rightarrow> string list" where
  "py_keys (PDict d) = map fst d"
| "py_keys _ = []"

section \<open>hashlib.sha256\<close>

text \<open>
  SHA-256 as FIPS 180-4 defines it, on bytes. A 32-bit word is an integer in
  \<open>[0, 2^32)\<close>; addition wraps around with \<open>mod 2^32\<close> written out.
\<close>

definition add32 :: "int \<Rightarrow> int \<Rightarrow> int" where
  "add32 a b = (a + b) mod 4294967296"

definition rotr :: "nat \<Rightarrow> int \<Rightarrow> int" where
  "rotr n x = x div 2 ^ n + (x mod 2 ^ n) * 2 ^ (32 - n)"

definition shr :: "nat \<Rightarrow> int \<Rightarrow> int" where
  "shr n x = x div 2 ^ n"

definition not32 :: "int \<Rightarrow> int" where
  "not32 x = 4294967295 - x"

definition sha_ch :: "int \<Rightarrow> int \<Rightarrow> int \<Rightarrow> int" where
  "sha_ch x y z = (x AND y) XOR (not32 x AND z)"

definition sha_maj :: "int \<Rightarrow> int \<Rightarrow> int \<Rightarrow> int" where
  "sha_maj x y z = (x AND y) XOR (x AND z) XOR (y AND z)"

definition bsig0 :: "int \<Rightarrow> int" where
  "bsig0 x = rotr 2 x XOR rotr 13 x XOR rotr 22 x"

definition bsig1 :: "int \<Rightarrow> int" where
  "bsig1 x = rotr 6 x XOR rotr 11 x XOR rotr 25 x"

definition ssig0 :: "int \<Rightarrow> int" where
  "ssig0 x = rotr 7 x XOR rotr 18 x XOR shr 3 x"

definition ssig1 :: "int \<Rightarrow> int" where
  "ssig1 x = rotr 17 x XOR rotr 19 x XOR shr 10 x"

definition K256 :: "int list" where
  "K256 = [
   1116352408, 1899447441, 3049323471, 3921009573, 961987163, 1508970993, 2453635748, 2870763221,
   3624381080, 310598401, 607225278, 1426881987, 1925078388, 2162078206, 2614888103, 3248222580,
   3835390401, 4022224774, 264347078, 604807628, 770255983, 1249150122, 1555081692, 1996064986,
   2554220882, 2821834349, 2952996808, 3210313671, 3336571891, 3584528711, 113926993, 338241895,
   666307205, 773529912, 1294757372, 1396182291, 1695183700, 1986661051, 2177026350, 2456956037,
   2730485921, 2820302411, 3259730800, 3345764771, 3516065817, 3600352804, 4094571909, 275423344,
   430227734, 506948616, 659060556, 883997877, 958139571, 1322822218, 1537002063, 1747873779,
   1955562222, 2024104815, 2227730452, 2361852424, 2428436474, 2756734187, 3204031479, 3329325298]"

definition H256 :: "int list" where
  "H256 = [1779033703, 3144134277, 1013904242, 2773480762,
           1359893119, 2600822924, 528734635, 1541459225]"

text \<open>The message schedule, newest word first: one step adds \<open>W\<^sub>t\<close> from
  \<open>W\<^sub>t\<^sub>-\<^sub>2\<close>, \<open>W\<^sub>t\<^sub>-\<^sub>7\<close>, \<open>W\<^sub>t\<^sub>-\<^sub>1\<^sub>5\<close> and \<open>W\<^sub>t\<^sub>-\<^sub>1\<^sub>6\<close>; 48 steps extend the 16 words of a block
  to 64.\<close>

definition sched_step :: "int list \<Rightarrow> int list" where
  "sched_step ws =
     add32 (add32 (add32 (ssig1 (ws ! 1)) (ws ! 6)) (ssig0 (ws ! 14))) (ws ! 15) # ws"

definition times4 :: "('a \<Rightarrow> 'a) \<Rightarrow> 'a \<Rightarrow> 'a" where
  "times4 f x = f (f (f (f x)))"

definition expand :: "int list \<Rightarrow> int list" where
  "expand ws =
     times4 (times4 sched_step) (times4 (times4 sched_step) (times4 (times4 sched_step) ws))"

fun round256 :: "int list \<Rightarrow> (int \<times> int) \<Rightarrow> int list" where
  "round256 [a, b, c, d, e, f, g, h] (k, w) =
     (let t1 = add32 (add32 (add32 (add32 h (bsig1 e)) (sha_ch e f g)) k) w;
          t2 = add32 (bsig0 a) (sha_maj a b c)
      in [add32 t1 t2, a, b, c, add32 d t1, e, f, g])"
| "round256 s kw = s"

definition compress :: "int list \<Rightarrow> int list \<Rightarrow> int list" where
  "compress hs block =
     map2 add32 hs (foldl round256 hs (zip K256 (rev (expand (rev block)))))"

text \<open>Padding: the byte 0x80, zeros up to 56 modulo 64, and the bit length as 8 bytes,
  most significant first.\<close>

definition be_bytes8 :: "nat \<Rightarrow> int list" where
  "be_bytes8 n = map (\<lambda>i. int ((n div 256 ^ i) mod 256)) [7, 6, 5, 4, 3, 2, 1, 0]"

definition sha_pad :: "int list \<Rightarrow> int list" where
  "sha_pad bs =
     bs @ [128] @ replicate ((119 - length bs mod 64) mod 64) 0 @ be_bytes8 (8 * length bs)"

fun group4 :: "'a list \<Rightarrow> 'a list list" where
  "group4 (a # b # c # d # rest) = [a, b, c, d] # group4 rest"
| "group4 xs = []"

text \<open>Four bytes make a word, most significant first; sixteen words make a block.\<close>

definition be32 :: "int list \<Rightarrow> int" where
  "be32 bs = foldl (\<lambda>acc b. acc * 256 + b) 0 bs"

definition words_of :: "int list \<Rightarrow> int list" where
  "words_of bs = map be32 (group4 bs)"

definition chunk16 :: "int list \<Rightarrow> int list list" where
  "chunk16 ws = map concat (group4 (group4 ws))"

definition sha256_words :: "int list \<Rightarrow> int list" where
  "sha256_words bs = foldl compress H256 (chunk16 (words_of (sha_pad bs)))"

definition hex32 :: "int \<Rightarrow> string" where
  "hex32 w = map (\<lambda>i. ''0123456789abcdef'' ! nat ((w div 16 ^ i) mod 16)) [7, 6, 5, 4, 3, 2, 1, 0]"

definition sha256_hex :: "string \<Rightarrow> string" where
  "sha256_hex s = concat (map hex32 (sha256_words (map (\<lambda>c. int (of_char c)) s)))"

section \<open>ai\_agents/analysis\_engines/message\_fingerprinter.py\<close>

text \<open>\<open>str.lower()\<close> on ASCII text.\<close>

definition lower_char :: "char \<Rightarrow> char" where
  "lower_char c = (let n = (of_char c :: nat) in if 65 \<le> n \<and> n \<le> 90 then char_of (n + 32) else c)"

definition lower :: "string \<Rightarrow> string" where
  "lower s = map lower_char s"

record MessageFingerprint =
  content_hash :: string
  semantic_hash :: string
  style_signature :: string
  temporal_pattern :: string
  metadata_hash :: string
  composite_fingerprint :: string

text \<open>
  The library functions the fingerprinter calls: \<open>hashlib.sha256(b).hexdigest()\<close> and
  \<open>json.dumps(v, sort_keys=True)\<close>. They are parameters of the model; \<open>sha256_hex\<close>
  above is the first of them as the library computes it.
\<close>

record externals =
  sha256_hexdigest :: "string \<Rightarrow> string"
  json_dumps :: "pyval \<Rightarrow> string"

text \<open>
  The methods of \<open>MessageFingerprintingEngine\<close> that the class calls and that the
  repository does not define. Each is a method on \<open>self\<close>: it reads the engine's state
  \<open>'s\<close> (the vectorizer, the known forwarding patterns) and may change it.
\<close>

record 's fingerprint_helpers =
  normalize_text :: "string \<Rightarrow> ('s, string) state"
  generate_ngram_hash :: "string \<Rightarrow> nat \<Rightarrow> ('s, string) state"
  extract_key_entities :: "string \<Rightarrow> ('s, pyval) state"
  extract_sentiment_profile :: "string \<Rightarrow> ('s, pyval) state"
  extract_topic_signature :: "string \<Rightarrow> ('s, pyval) state"
  extract_syntactic_pattern :: "string \<Rightarrow> ('s, pyval) state"
  calculate_avg_sentence_length :: "string \<Rightarrow> ('s, pyval) state"
  calculate_punctuation_ratio :: "string \<Rightarrow> ('s, pyval) state"
  analyze_capitalization :: "string \<Rightarrow> ('s, pyval) state"
  calculate_vocabulary_richness :: "string \<Rightarrow> ('s, pyval) state"
  analyze_emoji_usage :: "string \<Rightarrow> ('s, pyval) state"
  estimate_typing_rhythm :: "string \<Rightarrow> ('s, pyval) state"
  analyze_temporal_pattern :: "pydict \<Rightarrow> ('s, string) state"
  generate_metadata_hash :: "pydict \<Rightarrow> ('s, string) state"
  generate_composite_fingerprint :: "pydict \<Rightarrow> ('s, string) state"

text \<open>The list \<open>hashes\<close> of \<open>_generate_content_hash\<close>, built left to right.\<close>

definition content_hashes ::
  "externals \<Rightarrow> 's fingerprint_helpers \<Rightarrow> string \<Rightarrow> ('s, string list) state" where
  "content_hashes E H txt = do {
     normalized \<leftarrow> normalize_text H txt;
     ngram \<leftarrow> generate_ngram_hash H txt 3;
     State_Monad.return
       [sha256_hexdigest E normalized, sha256_hexdigest E (lower txt), ngram]
   }"

definition generate_content_hash ::
  "externals \<Rightarrow> 's fingerprint_helpers \<Rightarrow> string \<Rightarrow> ('s, string) state" where
  "generate_content_hash E H txt = do {
     hashes \<leftarrow> content_hashes E H txt;
     State_Monad.return (take 32 (sha256_hexdigest E (concat hashes)))
   }"

definition generate_semantic_hash ::
  "externals \<Rightarrow> 's fingerprint_helpers \<Rightarrow> string \<Rightarrow> ('s, string) state" where
  "generate_semantic_hash E H txt = do {
     entities \<leftarrow> extract_key_entities H txt;
     sentiment \<leftarrow> extract_sentiment_profile H txt;
     topic \<leftarrow> extract_topic_signature H txt;
     syntactic \<leftarrow> extract_syntactic_pattern H txt;
     let semantic_string = json_dumps E (PList [entities, sentiment, topic, syntactic]);
     State_Monad.return (take 32 (sha256_hexdigest E semantic_string))
   }"

definition analyze_writing_style ::
  "externals \<Rightarrow> 's fingerprint_helpers \<Rightarrow> string \<Rightarrow> ('s, string) state" where
  "analyze_writing_style E H txt = do {
     avg \<leftarrow> calculate_avg_sentence_length H txt;
     punct \<leftarrow> calculate_punctuation_ratio H txt;
     cap \<leftarrow> analyze_capitalization H txt;
     vocab \<leftarrow> calculate_vocabulary_richness H txt;
     emoji \<leftarrow> analyze_emoji_usage H txt;
     rhythm \<leftarrow> estimate_typing_rhythm H txt;
     let style_metrics = PDict
       [(''avg_sentence_length'', avg),
        (''punctuation_ratio'', punct),
        (''capitalization_pattern'', cap),
        (''vocabulary_richness'', vocab),
        (''emoji_usage_pattern'', emoji),
        (''typing_rhythm'', rhythm)];
     State_Monad.return (take 32 (sha256_hexdigest E (json_dumps E style_metrics)))
   }"

text \<open>
  \<open>create_message_fingerprint\<close>. The keyword arguments are evaluated in the order
  written. A text that is not a string has no \<open>lower\<close> method: the call raises.
\<close>

definition create_message_fingerprint ::
  "externals \<Rightarrow> 's fingerprint_helpers \<Rightarrow> pydict \<Rightarrow> ('s, error + MessageFingerprint) state" where
  "create_message_fingerprint E H message =
     (case dict_get message ''text'' (PStr '''') of
        PStr txt \<Rightarrow> do {
          c \<leftarrow> generate_content_hash E H txt;
          sem \<leftarrow> generate_semantic_hash E H txt;
          sty \<leftarrow> analyze_writing_style E H txt;
          tp \<leftarrow> analyze_temporal_pattern H message;
          mh \<leftarrow> generate_metadata_hash H message;
          cf \<leftarrow> generate_composite_fingerprint H message;
          State_Monad.return (Inr \<lparr>content_hash = c, semantic_hash = sem, style_signature = sty,
            temporal_pattern = tp, metadata_hash = mh, composite_fingerprint = cf\<rparr>)
        }
      | _ \<Rightarrow> State_Monad.return (Inl AttributeError))"

subsection \<open>An instance of the parameters\<close>

text \<open>
  Concrete values for the parameters, used where a statement is evaluated on an input.
  \<open>prefix_digest\<close> stands in for a digest: 64 characters, like a SHA-256 hexdigest.
\<close>

definition prefix_digest :: "string \<Rightarrow> string" where
  "prefix_digest x = take 64 (x @ replicate 64 (CHR ''0''))"

definition demo_externals :: externals where
  "demo_externals = \<lparr>sha256_hexdigest = prefix_digest, json_dumps = (\<lambda>v. ''[]'')\<rparr>"

definition is_space :: "char \<Rightarrow> bool" where
  "is_space c = (c = CHR '' '' \<or> c = CHR 0x09 \<or> c = CHR 0x0A \<or> c = CHR 0x0D)"

fun collapse_ws :: "bool \<Rightarrow> string \<Rightarrow> string" where
  "collapse_ws pending [] = []"
| "collapse_ws pending (c # cs) =
     (if is_space c then collapse_ws True cs
      else (if pending then [CHR '' ''] else []) @ c # collapse_ws False cs)"

text \<open>Modelled from the spec: \<open>_normalize_text\<close>, which the repository does not define.
  The spec's normalization: lower-case and collapse whitespace (leading and trailing
  whitespace dropped, inner runs become one space).\<close>

definition normalize_text_spec :: "string \<Rightarrow> string" where
  "normalize_text_spec t = collapse_ws False (dropWhile is_space (lower t))"

definition demo_helpers :: "nat fingerprint_helpers" where
  "demo_helpers = \<lparr>
     normalize_text = (\<lambda>t. State_Monad.return (normalize_text_spec t)),
     generate_ngram_hash = (\<lambda>t n. State_Monad.return (take n (lower t))),
     extract_key_entities = (\<lambda>t. State_Monad.return (PList [])),
     extract_sentiment_profile = (\<lambda>t. State_Monad.return (PStr ''neutral'')),
     extract_topic_signature = (\<lambda>t. State_Monad.return PNone),
     extract_syntactic_pattern = (\<lambda>t. State_Monad.return (PInt (int (length t)))),
     calculate_avg_sentence_length = (\<lambda>t. State_Monad.return (PInt (int (length t)))),
     calculate_punctuation_ratio = (\<lambda>t. State_Monad.return (PInt 0)),
     analyze_capitalization = (\<lambda>t. State_Monad.return (PBool (t = lower t))),
     calculate_vocabulary_richness = (\<lambda>t. State_Monad.return (PInt 0)),
     analyze_emoji_usage = (\<lambda>t. State_Monad.return (PInt 0)),
     estimate_typing_rhythm = (\<lambda>t. State_Monad.return (PInt 0)),
     analyze_temporal_pattern = (\<lambda>m. State_Monad.return ''t''),
     generate_metadata_hash = (\<lambda>m. State_Monad.return ''m''),
     generate_composite_fingerprint = (\<lambda>m. State_Monad.return ''c'')\<rparr>"

text \<open>
  The instance at which content hashes are evaluated: the real digest, and helpers that
  are as blind to whitespace and letter case as helpers can be. The n-gram hash is taken
  from the normalized text, so nothing but the code's own \<open>text.lower()\<close> sees a
  difference in whitespace.
\<close>

definition hashlib :: externals where
  "hashlib = \<lparr>sha256_hexdigest = sha256_hex, json_dumps = (\<lambda>v. ''[]'')\<rparr>"

definition whitespace_blind_helpers :: "nat fingerprint_helpers" where
  "whitespace_blind_helpers = demo_helpers
     \<lparr>generate_ngram_hash := (\<lambda>t n. State_Monad.return (take n (normalize_text_spec t)))\<rparr>"

section \<open>ai\_agents/analysis\_engines/cross\_chat\_correlator.py\<close>

subsection \<open>The exact-match query of \<open>_find_similar_messages\<close>\<close>

text \<open>
  \<open>SELECT * FROM messages WHERE content_hash = ? OR semantic_hash = ?\<close> with the target
  fingerprint's two hashes: the rows of the table whose column equals the parameter (a
  NULL or absent column matches nothing). The method's second query reads a name,
  \<open>target_message\<close>, that the method does not bind; it is not modelled.
\<close>

definition select_exact_matches :: "MessageFingerprint \<Rightarrow> pydict list \<Rightarrow> pydict list" where
  "select_exact_matches fp messages =
     filter (\<lambda>row. map_of row ''content_hash'' = Some (PStr (content_hash fp))
                 \<or> map_of row ''semantic_hash'' = Some (PStr (semantic_hash fp))) messages"

text \<open>Modelled from the spec: the row of the \<open>messages\<close> table for an ingested message. The
  repository has no code that fills the table; the spec stores each message with its
  fingerprint, keyed by \<open>content_hash\<close> and \<open>semantic_hash\<close>.\<close>

definition ingest_row :: "pydict \<Rightarrow> MessageFingerprint \<Rightarrow> pydict" where
  "ingest_row message fp =
     (''content_hash'', PStr (content_hash fp)) # (''semantic_hash'', PStr (semantic_hash fp)) # message"

subsection \<open>\<open>_reconstruct_propagation_path\<close>\<close>

text \<open>
  Timestamps are integers (seconds). \<open>sorted(similar_messages, key=lambda x: x['date'])\<close>
  computes every key first, so a message without a date raises KeyError; the sort is
  stable. Dates that are not integers are outside the model (TypeError).
\<close>

definition has_date :: "pydict \<Rightarrow> bool" where
  "has_date m = (case map_of m ''date'' of Some (PInt t) \<Rightarrow> True | _ \<Rightarrow> False)"

definition date_of :: "pydict \<Rightarrow> int" where
  "date_of m = (case map_of m ''date'' of Some (PInt t) \<Rightarrow> t | _ \<Rightarrow> 0)"

definition sorted_by_date :: "pydict list \<Rightarrow> error + pydict list" where
  "sorted_by_date ms =
     (if list_all has_date ms then Inr (sort_key date_of ms)
      else if list_all (\<lambda>m. map_of m ''date'' \<noteq> None) ms then Inl TypeError
      else Inl (KeyError ''date''))"

text \<open>
  The loop over \<open>sorted_messages[1:]\<close>, with the test after the loop as its last step.
  \<open>_is_likely_forward\<close> is not defined in the repository: it is the parameter \<open>lf\<close>.
\<close>

fun chain_loop ::
  "(pydict \<Rightarrow> pydict \<Rightarrow> bool) \<Rightarrow> pydict list \<Rightarrow> pydict list \<Rightarrow> pydict list list \<Rightarrow> pydict list list" where
  "chain_loop lf [] current_chain propagation_path =
     (if length current_chain > 1 then propagation_path @ [current_chain] else propagation_path)"
| "chain_loop lf (current_msg # rest) current_chain propagation_path =
     (let prev_msg = last current_chain in
      if lf prev_msg current_msg then
        chain_loop lf rest (current_chain @ [current_msg]) propagation_path
      else
        chain_loop lf rest [current_msg]
          (if length current_chain > 1 then propagation_path @ [current_chain]
           else propagation_path))"

definition reconstruct_propagation_path ::
  "(pydict \<Rightarrow> pydict \<Rightarrow> bool) \<Rightarrow> pydict list \<Rightarrow> error + pydict list list" where
  "reconstruct_propagation_path lf similar_messages =
     (if similar_messages = [] then Inr []
      else case sorted_by_date similar_messages of
        Inl e \<Rightarrow> Inl e
      | Inr [] \<Rightarrow> Inr []
      | Inr (first # rest) \<Rightarrow> Inr (chain_loop lf rest [first] []))"

text \<open>Modelled from the spec: the "is likely forward" test of two messages, at its
  strictest: the later message at most 24 hours after the earlier one and the texts equal
  (edit distance 0). A pair that passes it passes the spec's test at any threshold.\<close>

definition same_text_within_day :: "pydict \<Rightarrow> pydict \<Rightarrow> bool" where
  "same_text_within_day prev_msg current_msg =
     (date_of current_msg - date_of prev_msg \<le> 86400
      \<and> map_of prev_msg ''text'' = map_of current_msg ''text'')"

text \<open>The message ids of a chain, in order (\<open>None\<close> where a message has no id).\<close>

definition chain_ids :: "pydict list \<Rightarrow> pyval option list" where
  "chain_ids chain = map (\<lambda>m. map_of m ''id'') chain"

section \<open>ai\_agents/analysis\_engines/source\_attribution.py\<close>

text \<open>
  \<open>_reconstruct_forwarding_chain\<close>. The loop runs while the current message is truthy
  and \<open>iteration < max_iterations\<close>; the fuel of \<open>forwarding_chain_loop\<close> is
  \<open>max_iterations - iteration\<close>. \<open>_find_previous_version\<close> (a database lookup) and
  \<open>_detect_modifications\<close> are not defined in the repository: they are the parameters
  \<open>fpv\<close> and \<open>dm\<close>.
\<close>

definition max_iterations :: nat where
  "max_iterations = 10"

fun forwarding_chain_loop ::
  "(pyval \<Rightarrow> pyval) \<Rightarrow> (pyval \<Rightarrow> pyval \<Rightarrow> pyval) \<Rightarrow> nat \<Rightarrow> pyval \<Rightarrow> pyval list
     \<Rightarrow> error + pyval list" where
  "forwarding_chain_loop fpv dm 0 current_message chain = Inr chain"
| "forwarding_chain_loop fpv dm (Suc fuel) current_message chain =
     (if \<not> truthy current_message then Inr chain
      else
        let previous_version = fpv current_message in
        if truthy previous_version then
          (case py_getitem current_message ''user_id'' of
             Inl e \<Rightarrow> Inl e
           | Inr forwarder \<Rightarrow>
               (case py_getitem current_message ''date'' of
                  Inl e \<Rightarrow> Inl e
                | Inr ts \<Rightarrow>
                    forwarding_chain_loop fpv dm fuel previous_version
                      (chain @ [PDict
                         [(''message'', previous_version),
                          (''forwarder'', forwarder),
                          (''timestamp'', ts),
                          (''modifications'', dm previous_version current_message)]])))
        else
          (case py_getitem current_message ''date'' of
             Inl e \<Rightarrow> Inl e
           | Inr ts \<Rightarrow>
               Inr (chain @ [PDict
                  [(''message'', current_message),
                   (''status'', PStr ''original''),
                   (''timestamp'', ts)]])))"

definition reconstruct_forwarding_chain ::
  "(pyval \<Rightarrow> pyval) \<Rightarrow> (pyval \<Rightarrow> pyval \<Rightarrow> pyval) \<Rightarrow> pydict \<Rightarrow> error + pyval list" where
  "reconstruct_forwarding_chain fpv dm message =
     (case forwarding_chain_loop fpv dm max_iterations (PDict message) [] of
        Inl e \<Rightarrow> Inl e
      | Inr chain \<Rightarrow> Inr (rev chain))"

text \<open>The keys of the two kinds of chain entry.\<close>

definition hop_keys :: "string list" where
  "hop_keys = [''message'', ''forwarder'', ''timestamp'', ''modifications'']"

definition original_keys :: "string list" where
  "original_keys = [''message'', ''status'', ''timestamp'']"

definition has_key :: "pyval \<Rightarrow> string \<Rightarrow> bool" where
  "has_key v k = (case py_getitem v k of Inr x \<Rightarrow> True | Inl e \<Rightarrow> False)"

text \<open>A store for the scenario of a chain that never reaches its origin: every message
  has an earlier version, the same message dated one second before.\<close>

fun earlier_copy :: "pyval \<Rightarrow> pyval" where
  "earlier_copy (PDict d) =
     (case map_of d ''date'' of
        Some (PInt t) \<Rightarrow> PDict (map (\<lambda>(k, v). if k = ''date'' then (k, PInt (t - 1)) else (k, v)) d)
      | _ \<Rightarrow> PNone)"
| "earlier_copy _ = PNone"

definition no_modifications :: "pyval \<Rightarrow> pyval \<Rightarrow> pyval" where
  "no_modifications previous_version current_message = PList []"

section \<open>ai\_agents/security\_monitors/forwarding\_monitor.py\<close>

text \<open>
  The methods of \<open>RealTimeForwardingMonitor\<close> that the repository does not define.
  \<open>_calculate_relationship_score\<close> is the trust provider: it returns a score or raises.
\<close>

record leak_helpers =
  check_temporal_proximity :: "pyval \<Rightarrow> pyval"
  detect_content_modification :: "pyval \<Rightarrow> pyval"
  calculate_relationship_score :: "pyval \<Rightarrow> pyval \<Rightarrow> error + real"
  calculate_leak_confidence :: "pyval \<Rightarrow> pyval"
  identify_primary_leaker :: "pyval \<Rightarrow> pyval"
  suggest_countermeasures :: "pyval \<Rightarrow> pyval"

definition alert_threshold :: real where
  "alert_threshold = 0.7"

subsection \<open>\<open>_check_trust_network\<close>\<close>

fun trust_loop ::
  "(pyval \<Rightarrow> pyval \<Rightarrow> error + real) \<Rightarrow> pyval \<Rightarrow> pyval \<Rightarrow> pyval list \<Rightarrow> error + bool" where
  "trust_loop rel original_chat original_user [] = Inr False"
| "trust_loop rel original_chat original_user (similar_msg # rest) =
     (case py_getitem similar_msg ''chat_id'' of
        Inl e \<Rightarrow> Inl e
      | Inr c \<Rightarrow>
          if \<not> py_eq c original_chat then
            (case py_getitem similar_msg ''user_id'' of
               Inl e \<Rightarrow> Inl e
             | Inr u \<Rightarrow>
                 (case rel original_user u of
                    Inl e \<Rightarrow> Inl e
                  | Inr relationship_score \<Rightarrow>
                      if relationship_score < 0.3 then Inr True
                      else trust_loop rel original_chat original_user rest))
          else trust_loop rel original_chat original_user rest)"

definition check_trust_network ::
  "(pyval \<Rightarrow> pyval \<Rightarrow> error + real) \<Rightarrow> pydict \<Rightarrow> pydict \<Rightarrow> error + bool" where
  "check_trust_network rel original_message propagation =
     (case py_getitem (PDict original_message) ''chat_id'' of
        Inl e \<Rightarrow> Inl e
      | Inr original_chat \<Rightarrow>
          (case py_getitem (PDict original_message) ''user_id'' of
             Inl e \<Rightarrow> Inl e
           | Inr original_user \<Rightarrow>
               (case dict_get propagation ''similar_messages'' (PList []) of
                  PList similar \<Rightarrow> trust_loop rel original_chat original_user similar
                | _ \<Rightarrow> Inl TypeError)))"

text \<open>A similar message from another chat than the original's.\<close>

definition crosses_chat :: "pyval \<Rightarrow> pyval \<Rightarrow> bool" where
  "crosses_chat original_chat similar_msg =
     (case py_getitem similar_msg ''chat_id'' of Inr c \<Rightarrow> \<not> py_eq c original_chat | Inl e \<Rightarrow> False)"

subsection \<open>\<open>analyze_message_leakage\<close>\<close>

fun py_len :: "pyval \<Rightarrow> error + nat" where
  "py_len (PList xs) = Inr (length xs)"
| "py_len (PStr s) = Inr (length s)"
| "py_len (PDict d) = Inr (length d)"
| "py_len _ = Inl TypeError"

text \<open>
  The correlation engine is handed to the monitor's constructor; its
  \<open>track_message_propagation\<close> is the parameter \<open>track\<close>. The entries of the two
  dictionaries are evaluated in the order written.
\<close>

definition analyze_message_leakage ::
  "leak_helpers \<Rightarrow> (pydict \<Rightarrow> error + pydict) \<Rightarrow> pydict \<Rightarrow> error + pydict" where
  "analyze_message_leakage H track message =
     (case track message of
        Inl e \<Rightarrow> Inl e
      | Inr propagation_analysis \<Rightarrow>
          (case py_len (dict_get propagation_analysis ''similar_messages'' (PList [])) of
             Inl e \<Rightarrow> Inl e
           | Inr n \<Rightarrow>
               (case check_trust_network (calculate_relationship_score H) message
                       propagation_analysis of
                  Inl e \<Rightarrow> Inl e
                | Inr violation \<Rightarrow>
                    (let leak_indicators = PDict
                       [(''cross_chat_appearance'', PBool (n > 1)),
                        (''temporal_proximity'',
                           check_temporal_proximity H (PDict propagation_analysis)),
                        (''content_modification'',
                           detect_content_modification H (PDict propagation_analysis)),
                        (''trust_network_violation'', PBool violation)]
                     in case py_getitem (PDict message) ''id'' of
                          Inl e \<Rightarrow> Inl e
                        | Inr mid \<Rightarrow> Inr
                            [(''message_id'', mid),
                             (''leak_confidence'', calculate_leak_confidence H leak_indicators),
                             (''leak_indicators'', leak_indicators),
                             (''propagation_path'',
                                dict_get propagation_analysis ''propagation_path'' (PList [])),
                             (''suspected_leaker'',
                                identify_primary_leaker H (PDict propagation_analysis)),
                             (''recommended_actions'',
                                suggest_countermeasures H leak_indicators)]))))"

text \<open>Modelled from the spec: \<open>_calculate_leak_confidence\<close>, which the repository calls and
  does not define. The spec's score is the weighted sum of the cross-chat appearance
  (weight 0.4), the time-proximity term (weight 0.3) and the trust term (weight 0.3),
  clamped to [0,1]. The terms are read from the leak indicators: a true flag counts 1, a
  false or missing one 0, and the time-proximity term is the indicator's number.\<close>

definition indicator_term :: "pyval \<Rightarrow> string \<Rightarrow> real" where
  "indicator_term leak_indicators k =
     (case py_getitem leak_indicators k of
        Inr v \<Rightarrow> (case py_num v of Some x \<Rightarrow> x | None \<Rightarrow> if truthy v then 1 else 0)
      | Inl e \<Rightarrow> 0)"

definition calculate_leak_confidence_spec :: "pyval \<Rightarrow> pyval" where
  "calculate_leak_confidence_spec leak_indicators =
     PFloat (max 0 (min 1
       (0.4 * indicator_term leak_indicators ''cross_chat_appearance''
        + 0.3 * indicator_term leak_indicators ''temporal_proximity''
        + 0.3 * indicator_term leak_indicators ''trust_network_violation'')))"

text \<open>An instance of the helpers: the spec's score, and a trust provider that is
  unavailable (every call raises).\<close>

definition unavailable_trust_helpers :: leak_helpers where
  "unavailable_trust_helpers = \<lparr>
     check_temporal_proximity = (\<lambda>p. PFloat 0),
     detect_content_modification = (\<lambda>p. PBool False),
     calculate_relationship_score = (\<lambda>a b. Inl (Raised ''trust provider unavailable'')),
     calculate_leak_confidence = calculate_leak_confidence_spec,
     identify_primary_leaker = (\<lambda>p. PNone),
     suggest_countermeasures = (\<lambda>i. PList [])\<rparr>"

subsection \<open>The monitoring loops\<close>

text \<open>
  \<open>while True:\<close> with one cycle of work and then \<open>await asyncio.sleep(interval)\<close>. The loop
  has no \<open>try\<close>: an exception raised in a cycle, or by the sleep, leaves the loop.
  \<open>monitor_loop\<close> runs the first \<open>n\<close> cycles and reports where the loop stands: crashed
  with the exception, or still running; either way with the sleeps it has made, in
  seconds. The parameter \<open>sleep\<close> is what the sleep statement does: it waits the given
  seconds, or raises.
\<close>

datatype 's loop_outcome =
    Crashed error "nat list"
  | Running 's "nat list"

fun monitor_loop ::
  "(error + nat) \<Rightarrow> ('s \<Rightarrow> error + 's) \<Rightarrow> nat \<Rightarrow> 's \<Rightarrow> nat list \<Rightarrow> 's loop_outcome" where
  "monitor_loop sleep cycle 0 s sleeps = Running s sleeps"
| "monitor_loop sleep cycle (Suc n) s sleeps =
     (case cycle s of
        Inl e \<Rightarrow> Crashed e sleeps
      | Inr s' \<Rightarrow>
          (case sleep of
             Inl e \<Rightarrow> Crashed e sleeps
           | Inr seconds \<Rightarrow> monitor_loop sleep cycle n s' (sleeps @ [seconds])))"

text \<open>The state after \<open>k\<close> cycles that all completed (\<open>None\<close> when one of them raised).\<close>

fun after_cycles :: "('s \<Rightarrow> error + 's) \<Rightarrow> nat \<Rightarrow> 's \<Rightarrow> 's option" where
  "after_cycles cycle 0 s = Some s"
| "after_cycles cycle (Suc k) s =
     (case cycle s of Inl e \<Rightarrow> None | Inr s' \<Rightarrow> after_cycles cycle k s')"

text \<open>
  \<open>monitor_conversation_leaks\<close>. The monitor's state is \<open>'s\<close>; \<open>_get_recent_messages\<close>,
  \<open>_trigger_leak_alert\<close> and \<open>_implement_countermeasures\<close> are not defined in the
  repository and may raise. \<open>analyze\<close> is \<open>self.analyze_message_leakage\<close>. The module
  imports asyncio: the sleep waits 300 seconds.
\<close>

record 's monitor_helpers =
  get_recent_messages :: "'s \<Rightarrow> error + (pydict list \<times> 's)"
  trigger_leak_alert :: "pydict \<Rightarrow> 's \<Rightarrow> error + 's"
  implement_countermeasures :: "pydict \<Rightarrow> 's \<Rightarrow> error + 's"

fun process_messages ::
  "'s monitor_helpers \<Rightarrow> (pydict \<Rightarrow> error + pydict) \<Rightarrow> pydict list \<Rightarrow> 's \<Rightarrow> error + 's" where
  "process_messages M analyze [] s = Inr s"
| "process_messages M analyze (message # rest) s =
     (case analyze message of
        Inl e \<Rightarrow> Inl e
      | Inr leak_analysis \<Rightarrow>
          (case py_getitem (PDict leak_analysis) ''leak_confidence'' of
             Inl e \<Rightarrow> Inl e
           | Inr c \<Rightarrow>
               (case py_num c of
                  None \<Rightarrow> Inl TypeError
                | Some x \<Rightarrow>
                    if x > alert_threshold then
                      (case trigger_leak_alert M leak_analysis s of
                         Inl e \<Rightarrow> Inl e
                       | Inr s1 \<Rightarrow>
                           (case implement_countermeasures M leak_analysis s1 of
                              Inl e \<Rightarrow> Inl e
                            | Inr s2 \<Rightarrow> process_messages M analyze rest s2))
                    else process_messages M analyze rest s)))"

definition leak_cycle ::
  "'s monitor_helpers \<Rightarrow> (pydict \<Rightarrow> error + pydict) \<Rightarrow> 's \<Rightarrow> error + 's" where
  "leak_cycle M analyze s =
     (case get_recent_messages M s of
        Inl e \<Rightarrow> Inl e
      | Inr (recent_messages, s1) \<Rightarrow> process_messages M analyze recent_messages s1)"

definition monitor_conversation_leaks ::
  "'s monitor_helpers \<Rightarrow> (pydict \<Rightarrow> error + pydict) \<Rightarrow> nat \<Rightarrow> 's \<Rightarrow> 's loop_outcome" where
  "monitor_conversation_leaks M analyze n s =
     monitor_loop (Inr 300) (leak_cycle M analyze) n s []"

section \<open>ai\_agents/intelligence\_collectors/realtime\_monitor.py\<close>

text \<open>
  \<open>monitor_manipulation_activity\<close>. \<open>_get_recent_activity\<close>, the three detectors,
  \<open>_trigger_manipulation_alert\<close> and \<open>_update_manipulator_profiles\<close> are not defined in the
  repository. The module has no import statement: \<open>asyncio\<close> is not bound, and the sleep
  at the end of a cycle raises NameError.
\<close>

record 's manipulation_helpers =
  get_recent_activity :: "'s \<Rightarrow> error + (pyval \<times> 's)"
  detect_real_time_coordination :: "pyval \<Rightarrow> pyval"
  detect_amplification_spikes :: "pyval \<Rightarrow> pyval"
  detect_narrative_sync :: "pyval \<Rightarrow> pyval"
  trigger_manipulation_alert :: "pyval \<Rightarrow> 's \<Rightarrow> error + 's"
  update_manipulator_profiles :: "pyval \<Rightarrow> 's \<Rightarrow> error + 's"

definition detect_real_time_manipulation :: "'s manipulation_helpers \<Rightarrow> pyval \<Rightarrow> pyval" where
  "detect_real_time_manipulation M activity_data = PDict
     [(''coordinated_posting'', detect_real_time_coordination M activity_data),
      (''amplification_spikes'', detect_amplification_spikes M activity_data),
      (''narrative_synchronization'', detect_narrative_sync M activity_data),
      (''campaign_detected'', PBool False),
      (''confidence_level'', PFloat 0)]"

definition manipulation_cycle :: "'s manipulation_helpers \<Rightarrow> 's \<Rightarrow> error + 's" where
  "manipulation_cycle M s =
     (case get_recent_activity M s of
        Inl e \<Rightarrow> Inl e
      | Inr (recent_activity, s1) \<Rightarrow>
          (let manipulation_signals = detect_real_time_manipulation M recent_activity in
           case py_getitem manipulation_signals ''campaign_detected'' of
             Inl e \<Rightarrow> Inl e
           | Inr detected \<Rightarrow>
               (case (if truthy detected
                      then trigger_manipulation_alert M manipulation_signals s1
                      else Inr s1) of
                  Inl e \<Rightarrow> Inl e
                | Inr s2 \<Rightarrow> update_manipulator_profiles M manipulation_signals s2)))"

definition monitor_manipulation_activity ::
  "'s manipulation_helpers \<Rightarrow> nat \<Rightarrow> 's \<Rightarrow> 's loop_outcome" where
  "monitor_manipulation_activity M n s =
     monitor_loop (Inl (NameError ''asyncio'')) (manipulation_cycle M) n s []"

subsection \<open>Instances of the monitors' helpers\<close>

text \<open>A message source that is down; one that answers twice and then is down; and an
  activity feed that always answers.\<close>

definition failing_source :: "nat monitor_helpers" where
  "failing_source = \<lparr>
     get_recent_messages = (\<lambda>s. Inl (Raised ''connection lost'')),
     trigger_leak_alert = (\<lambda>a s. Inr s),
     implement_countermeasures = (\<lambda>a s. Inr s)\<rparr>"

definition flaky_source :: "nat monitor_helpers" where
  "flaky_source = \<lparr>
     get_recent_messages =
       (\<lambda>s. if s < 2 then Inr ([], Suc s) else Inl (Raised ''connection lost'')),
     trigger_leak_alert = (\<lambda>a s. Inr s),
     implement_countermeasures = (\<lambda>a s. Inr s)\<rparr>"

definition steady_feed :: "nat manipulation_helpers" where
  "steady_feed = \<lparr>
     get_recent_activity = (\<lambda>s. Inr (PList [], Suc s)),
     detect_real_time_coordination = (\<lambda>a. PBool False),
     detect_amplification_spikes = (\<lambda>a. PBool False),
     detect_narrative_sync = (\<lambda>a. PBool False),
     trigger_manipulation_alert = (\<lambda>a s. Inr s),
     update_manipulator_profiles = (\<lambda>a s. Inr s)\<rparr>"

section \<open>Scenarios\<close>

subsection \<open>Messages of the spec's scenarios\<close>

text \<open>Message A (chat 1, t = 0) and message B (chat 2, t = 3600) carry the same text;
  message C is unrelated to both. The last two have an empty text.\<close>

definition msg_A :: pydict where
  "msg_A = [(''id'', PInt 1), (''user_id'', PInt 10), (''chat_id'', PInt 1), (''date'', PInt 0),
            (''text'', PStr ''Meeting at 5pm'')]"

definition msg_B :: pydict where
  "msg_B = [(''id'', PInt 2), (''user_id'', PInt 20), (''chat_id'', PInt 2), (''date'', PInt 3600),
            (''text'', PStr ''Meeting at 5pm'')]"

definition msg_C :: pydict where
  "msg_C = [(''id'', PInt 3), (''user_id'', PInt 30), (''chat_id'', PInt 3), (''date'', PInt 7200),
            (''text'', PStr ''Lunch?'')]"

definition empty_msg_1 :: pydict where
  "empty_msg_1 = [(''id'', PInt 4), (''user_id'', PInt 10), (''chat_id'', PInt 1), (''date'', PInt 10),
            (''text'', PStr '''')]"

definition empty_msg_2 :: pydict where
  "empty_msg_2 = [(''id'', PInt 5), (''user_id'', PInt 20), (''chat_id'', PInt 2), (''date'', PInt 20)]"

section \<open>Evaluating SHA-256\<close>

lemma replicate_numeral: "replicate (numeral k) x = x # replicate (pred_numeral k) x"
  by (simp add: numeral_eq_Suc)

lemma length_foldl: "length xs = foldl (\<lambda>n x. n + 1) 0 xs"
proof -
  have "foldl (\<lambda>n x. n + 1) k xs = k + length xs" for k
    by (induction xs arbitrary: k) auto
  from this [of 0] show ?thesis by simp
qed

lemmas sha_marshal = sha256_hex_def sha256_words_def sha_pad_def be_bytes8_def replicate_numeral
  length_foldl words_of_def chunk16_def be32_def hex32_def

lemmas sha_rounds = compress_def expand_def times4_def sched_step_def K256_def add32_def
  ssig0_def ssig1_def bsig0_def bsig1_def sha_ch_def sha_maj_def not32_def rotr_def shr_def

lemma sha256_abc_block1:
  "compress H256 [1633837952, 0, 0, 0, 0, 0, 0, 0, 0, 0, 0, 0, 0, 0, 0, 24] =
   [3128432319, 2399260650, 1094795486, 1571693091, 2953011619, 2518121116, 3021012833, 4060091821]"
  by (simp add: sha_rounds H256_def)

lemma sha256_abc: "sha256_hex ''abc'' =
    ''ba7816bf8f01cfea414140de5dae2223b00361a396177a9cb410ff61f20015ad''"
  by (simp add: sha_marshal sha256_abc_block1)

lemma sha256_a_b_block1:
  "compress H256 [1629512320, 0, 0, 0, 0, 0, 0, 0, 0, 0, 0, 0, 0, 0, 0, 24] =
   [3362290184, 2858249938, 71510266, 1785297592, 3916284738, 2447950339, 1256768398, 1875668325]"
  by (simp add: sha_rounds H256_def)

lemma sha256_a_b: "sha256_hex ''a b'' =
    ''c8687a08aa5d6ed2044328fa6a697ab8e96dc34291e8c2034ae8c38e6fcc6d65''"
  by (simp add: sha_marshal sha256_a_b_block1)

lemma sha256_a__b_block1:
  "compress H256 [1629495394, 2147483648, 0, 0, 0, 0, 0, 0, 0, 0, 0, 0, 0, 0, 0, 32] =
   [1846729587, 546989777, 1202092565, 2257312587, 2330295176, 1296511281, 191035434, 2103927070]"
  by (simp add: sha_rounds H256_def)

lemma sha256_a__b: "sha256_hex ''a  b'' =
    ''6e12db73209a66d147a67a15868bdb4b8ae57b884d4731310b62f82a7d67611e''"
  by (simp add: sha_marshal sha256_a__b_block1)

lemma sha256_joined_a_b_block1:
  "compress H256 [1664628280, 929116216, 1633760612, 912614450, 808727603, 842557025, 912340537, 929129016, 1698248292, 1664300082, 959538488, 1664233523, 878798136, 1664301157, 912679779, 912537141] =
   [3869438678, 2174762464, 409764273, 3105825275, 581533622, 549197758, 2371318626, 3477434474]"
  by (simp add: sha_rounds H256_def)

lemma sha256_joined_a_b_block2:
  "compress [3869438678, 2174762464, 409764273, 3105825275, 581533622, 549197758, 2371318626, 3477434474]
     [1664628280, 929116216, 1633760612, 912614450, 808727603, 842557025, 912340537, 929129016, 1698248292, 1664300082, 959538488, 1664233523, 878798136, 1664301157, 912679779, 912537141] =
   [61962621, 176318034, 4193298714, 1078526558, 1391583462, 1273887573, 3995061251, 674348272]"
  by (simp add: sha_rounds)

lemma sha256_joined_a_b_block3:
  "compress [61962621, 176318034, 4193298714, 1078526558, 1391583462, 1273887573, 3995061251, 674348272]
     [1629512320, 0, 0, 0, 0, 0, 0, 0, 0, 0, 0, 0, 0, 0, 0, 1048] =
   [3065314799, 3364689688, 1215184852, 3613587720, 2946945228, 3746884115, 2549234676, 1973148478]"
  by (simp add: sha_rounds)

lemma sha256_joined_a_b: "sha256_hex ''c8687a08aa5d6ed2044328fa6a697ab8e96dc34291e8c2034ae8c38e6fcc6d65c8687a08aa5d6ed2044328fa6a697ab8e96dc34291e8c2034ae8c38e6fcc6d65a b'' =
    ''b6b4fdefc88d1718486e3fd4d762f908afa6d0ccdf54ea1397f23bf4759bdb3e''"
  by (simp add: sha_marshal sha256_joined_a_b_block1 sha256_joined_a_b_block2 sha256_joined_a_b_block3)

lemma sha256_joined_a__b_block2:
  "compress [3869438678, 2174762464, 409764273, 3105825275, 581533622, 549197758, 2371318626, 3477434474]
     [912601394, 1684158259, 842021217, 909534257, 876044598, 929116469, 943077474, 1684157538, 945906997, 929183800, 878982199, 858862385, 811742770, 1714958945, 929314359, 909193573] =
   [3446593454, 3520707501, 2887586529, 289594956, 39469167, 2689499612, 2197841123, 987291149]"
  by (simp add: sha_rounds)

lemma sha256_joined_a__b_block3:
  "compress [3446593454, 3520707501, 2887586529, 289594956, 39469167, 2689499612, 2197841123, 987291149]
     [1629512320, 0, 0, 0, 0, 0, 0, 0, 0, 0, 0, 0, 0, 0, 0, 1048] =
   [4219950243, 3127134528, 152455407, 1772893084, 3168253053, 1766387518, 1936104133, 2081369396]"
  by (simp add: sha_rounds)

lemma sha256_joined_a__b: "sha256_hex ''c8687a08aa5d6ed2044328fa6a697ab8e96dc34291e8c2034ae8c38e6fcc6d656e12db73209a66d147a67a15868bdb4b8ae57b884d4731310b62f82a7d67611ea b'' =
    ''fb8754a3ba644940091648ef69ac339cbcd7b47d6948ef3e73669ac57c0f2d34''"
  by (simp add: sha_marshal sha256_joined_a_b_block1 sha256_joined_a__b_block2 sha256_joined_a__b_block3)

subsection \<open>A SHA-256 hexdigest has 64 characters\<close>

lemma length_round256: "length (round256 s kw) = length s"
  by (cases "(s, kw)" rule: round256.cases) (simp_all add: Let_def)

lemma length_foldl_round256: "length (foldl round256 s kws) = length s"
  by (induction kws arbitrary: s) (simp_all add: length_round256)

lemma length_compress: "length (compress hs block) = length hs"
  by (simp add: compress_def length_foldl_round256)

lemma length_foldl_compress: "length (foldl compress hs blocks) = length hs"
  by (induction blocks arbitrary: hs) (simp_all add: length_compress)

lemma length_concat_hex32: "length (concat (map hex32 ws)) = 8 * length ws"
  by (induction ws) (simp_all add: hex32_def)

lemma sha256_hex_length: "length (sha256_hex x) = 64"
  by (simp add: sha256_hex_def sha256_words_def length_concat_hex32 length_foldl_compress H256_def)

section \<open>Properties of the fingerprinter\<close>

lemma create_message_fingerprint_text:
  assumes "dict_get m ''text'' (PStr '''') = PStr t"
  shows "\<exists>f s'. run_state (create_message_fingerprint E H m) s = (Inr f, s') \<and>
     content_hash f = fst (run_state (generate_content_hash E H t) s) \<and>
     semantic_hash f = fst (run_state (generate_semantic_hash E H t)
        (snd (run_state (generate_content_hash E H t) s))) \<and>
     style_signature f = fst (run_state (analyze_writing_style E H t)
        (snd (run_state (generate_semantic_hash E H t)
          (snd (run_state (generate_content_hash E H t) s)))))"
  by (simp add: create_message_fingerprint_def assms split: prod.splits)

lemma content_hashes_shape:
  "\<exists>n g. fst (run_state (content_hashes E H t) s) =
     [sha256_hexdigest E n, sha256_hexdigest E (lower t), g]"
  by (auto simp: content_hashes_def split: prod.splits)

lemma generate_content_hash_run:
  "fst (run_state (generate_content_hash E H t) s) =
     take 32 (sha256_hexdigest E (concat (fst (run_state (content_hashes E H t) s))))"
  by (simp add: generate_content_hash_def split: prod.splits)

lemma lower_ab: "lower ''a b'' = ''a b''" "lower ''a  b'' = ''a  b''"
  by (simp_all add: lower_def lower_char_def)

lemma normalize_ab: "normalize_text_spec ''a b'' = ''a b''" "normalize_text_spec ''a  b'' = ''a b''"
  by (simp_all add: normalize_text_spec_def lower_ab is_space_def)

text \<open>Whatever the undefined helpers return, in whatever engine state: when the digest
  returns 64 characters and tells the lower-cased texts apart, the strings handed to the
  last digest differ.\<close>

lemma content_hash_input_differs:
  assumes len: "\<forall>x. length (sha256_hexdigest E x) = 64"
    and dist: "sha256_hexdigest E (lower ''a b'') \<noteq> sha256_hexdigest E (lower ''a  b'')"
  shows "concat (fst (run_state (content_hashes E H ''a b'') s)) \<noteq>
         concat (fst (run_state (content_hashes E H ''a  b'') s'))"
proof
  assume eq: "concat (fst (run_state (content_hashes E H ''a b'') s)) =
         concat (fst (run_state (content_hashes E H ''a  b'') s'))"
  obtain n1 g1 n2 g2 where
    h1: "fst (run_state (content_hashes E H ''a b'') s) =
           [sha256_hexdigest E n1, sha256_hexdigest E (lower ''a b''), g1]"
    and h2: "fst (run_state (content_hashes E H ''a  b'') s') =
           [sha256_hexdigest E n2, sha256_hexdigest E (lower ''a  b''), g2]"
    using content_hashes_shape [of E H "''a b''" s] content_hashes_shape [of E H "''a  b''" s']
    by blast
  from eq have "sha256_hexdigest E n1 @ sha256_hexdigest E (lower ''a b'') @ g1 =
      sha256_hexdigest E n2 @ sha256_hexdigest E (lower ''a  b'') @ g2"
    unfolding h1 h2 by simp
  then have "sha256_hexdigest E (lower ''a b'') @ g1 = sha256_hexdigest E (lower ''a  b'') @ g2"
    using len by simp
  then have "sha256_hexdigest E (lower ''a b'') = sha256_hexdigest E (lower ''a  b'')"
    using len by simp
  with dist show False by contradiction
qed

subsection \<open>The content hash at the whitespace-blind instance\<close>

lemma joined_a_b:
  "concat (fst (run_state (content_hashes hashlib whitespace_blind_helpers ''a b'') 0)) =
     ''c8687a08aa5d6ed2044328fa6a697ab8e96dc34291e8c2034ae8c38e6fcc6d65c8687a08aa5d6ed2044328fa6a697ab8e96dc34291e8c2034ae8c38e6fcc6d65a b''"
  by (simp add: content_hashes_def hashlib_def whitespace_blind_helpers_def demo_helpers_def
      normalize_ab lower_ab sha256_a_b)

lemma joined_a__b:
  "concat (fst (run_state (content_hashes hashlib whitespace_blind_helpers ''a  b'') 0)) =
     ''c8687a08aa5d6ed2044328fa6a697ab8e96dc34291e8c2034ae8c38e6fcc6d656e12db73209a66d147a67a15868bdb4b8ae57b884d4731310b62f82a7d67611ea b''"
  by (simp add: content_hashes_def hashlib_def whitespace_blind_helpers_def demo_helpers_def
      normalize_ab lower_ab sha256_a_b sha256_a__b)

lemma content_hash_a_b:
  "fst (run_state (generate_content_hash hashlib whitespace_blind_helpers ''a b'') 0) =
     ''b6b4fdefc88d1718486e3fd4d762f908''"
  unfolding generate_content_hash_run joined_a_b
  by (simp add: hashlib_def sha256_joined_a_b)

lemma content_hash_a__b:
  "fst (run_state (generate_content_hash hashlib whitespace_blind_helpers ''a  b'') 0) =
     ''fb8754a3ba644940091648ef69ac339c''"
  unfolding generate_content_hash_run joined_a__b
  by (simp add: hashlib_def sha256_joined_a__b)

text \<open>
  C1. The claim: two texts that differ only in whitespace or letter case get equal
  content hashes. The code digests the join of three strings, and the second is the
  digest of \<open>text.lower()\<close>, where whitespace is kept. For two messages with the texts
  \<open>a b\<close> and \<open>a  b\<close>, whatever the undefined helpers return and in whatever engine states:
  with a digest that returns 64 characters, tells the two texts apart and does not send
  the two joined strings to the same first 32 characters, both messages are fingerprinted
  and their content hashes differ. SHA-256 is such a digest, as the evaluation after the
  theorem shows.
\<close>

theorem content_hash_whitespace_sensitive:
  assumes t1: "map_of m1 ''text'' = Some (PStr ''a b'')"
    and t2: "map_of m2 ''text'' = Some (PStr ''a  b'')"
    and len: "\<forall>x. length (sha256_hexdigest E x) = 64"
    and dist: "sha256_hexdigest E (lower ''a b'') \<noteq> sha256_hexdigest E (lower ''a  b'')"
    and nocoll:
      "concat (fst (run_state (content_hashes E H ''a b'') s)) \<noteq>
         concat (fst (run_state (content_hashes E H ''a  b'') s')) \<longrightarrow>
       take 32 (sha256_hexdigest E (concat (fst (run_state (content_hashes E H ''a b'') s)))) \<noteq>
         take 32 (sha256_hexdigest E (concat (fst (run_state (content_hashes E H ''a  b'') s'))))"
  shows "\<exists>f1 f2.
     fst (run_state (create_message_fingerprint E H m1) s) = Inr f1 \<and>
     fst (run_state (create_message_fingerprint E H m2) s') = Inr f2 \<and>
     content_hash f1 \<noteq> content_hash f2"
proof -
  have a: "dict_get m1 ''text'' (PStr '''') = PStr ''a b''"
    and b: "dict_get m2 ''text'' (PStr '''') = PStr ''a  b''"
    using t1 t2 by (simp_all add: dict_get_def)
  from create_message_fingerprint_text [OF a, of E H s] obtain f1 where
    f1: "fst (run_state (create_message_fingerprint E H m1) s) = Inr f1"
      "content_hash f1 = fst (run_state (generate_content_hash E H ''a b'') s)"
    by force
  from create_message_fingerprint_text [OF b, of E H s'] obtain f2 where
    f2: "fst (run_state (create_message_fingerprint E H m2) s') = Inr f2"
      "content_hash f2 = fst (run_state (generate_content_hash E H ''a  b'') s')"
    by force
  from content_hash_input_differs [OF len dist, of H s s'] nocoll
  have "fst (run_state (generate_content_hash E H ''a b'') s) \<noteq>
        fst (run_state (generate_content_hash E H ''a  b'') s')"
    unfolding generate_content_hash_run by blast
  with f1 f2 show ?thesis by auto
qed

text \<open>With SHA-256 and the whitespace-blind helpers the two content hashes are the two
  values below: what \<open>sha256(sha256('a b') + sha256(t) + 'a b')[:32]\<close> gives for \<open>t = 'a b'\<close>
  and for \<open>t = 'a  b'\<close>.\<close>

theorem content_hash_whitespace_sensitive_witness:
  "\<exists>f1 f2.
     fst (run_state (create_message_fingerprint hashlib whitespace_blind_helpers
            [(''id'', PInt 1), (''text'', PStr ''a b'')]) 0) = Inr f1 \<and>
     fst (run_state (create_message_fingerprint hashlib whitespace_blind_helpers
            [(''id'', PInt 2), (''text'', PStr ''a  b'')]) 0) = Inr f2 \<and>
     content_hash f1 = ''b6b4fdefc88d1718486e3fd4d762f908'' \<and>
     content_hash f2 = ''fb8754a3ba644940091648ef69ac339c'' \<and>
     content_hash f1 \<noteq> content_hash f2"
proof -
  let ?m1 = "[(''id'', PInt 1), (''text'', PStr ''a b'')]"
  let ?m2 = "[(''id'', PInt 2), (''text'', PStr ''a  b'')]"
  have t1: "map_of ?m1 ''text'' = Some (PStr ''a b'')"
    and t2: "map_of ?m2 ''text'' = Some (PStr ''a  b'')"
    by simp_all
  have len: "\<forall>x. length (sha256_hexdigest hashlib x) = 64"
    by (simp add: hashlib_def sha256_hex_length)
  have dist: "sha256_hexdigest hashlib (lower ''a b'') \<noteq> sha256_hexdigest hashlib (lower ''a  b'')"
    by (simp add: hashlib_def lower_ab sha256_a_b sha256_a__b)
  have nocoll:
    "take 32 (sha256_hexdigest hashlib
        (concat (fst (run_state (content_hashes hashlib whitespace_blind_helpers ''a b'') 0)))) \<noteq>
     take 32 (sha256_hexdigest hashlib
        (concat (fst (run_state (content_hashes hashlib whitespace_blind_helpers ''a  b'') 0))))"
    using content_hash_a_b content_hash_a__b unfolding generate_content_hash_run by simp
  from content_hash_whitespace_sensitive [OF t1 t2 len dist, of whitespace_blind_helpers 0 0] nocoll
  obtain f1 f2 where
    f: "fst (run_state (create_message_fingerprint hashlib whitespace_blind_helpers ?m1) 0) = Inr f1"
       "fst (run_state (create_message_fingerprint hashlib whitespace_blind_helpers ?m2) 0) = Inr f2"
       "content_hash f1 \<noteq> content_hash f2"
    by blast
  have a: "dict_get ?m1 ''text'' (PStr '''') = PStr ''a b''"
    and b: "dict_get ?m2 ''text'' (PStr '''') = PStr ''a  b''"
    by (simp_all add: dict_get_def)
  from create_message_fingerprint_text [OF a, of hashlib whitespace_blind_helpers 0] f(1)
  have c1: "content_hash f1 = ''b6b4fdefc88d1718486e3fd4d762f908''"
    by (auto simp: content_hash_a_b)
  from create_message_fingerprint_text [OF b, of hashlib whitespace_blind_helpers 0] f(2)
  have c2: "content_hash f2 = ''fb8754a3ba644940091648ef69ac339c''"
    by (auto simp: content_hash_a__b)
  from f c1 c2 show ?thesis by blast
qed

text \<open>
  C10. A message without a \<open>text\<close> key does not raise: it is fingerprinted, and its
  content hash, semantic hash and style signature are those of a message whose text is
  the empty string, fingerprinted in the same engine state.
\<close>

theorem missing_text_is_empty_text:
  assumes "map_of m ''text'' = None" and "map_of m' ''text'' = Some (PStr '''')"
  shows "\<exists>f f'. fst (run_state (create_message_fingerprint E H m) s) = Inr f \<and>
     fst (run_state (create_message_fingerprint E H m') s) = Inr f' \<and>
     content_hash f = content_hash f' \<and>
     semantic_hash f = semantic_hash f' \<and>
     style_signature f = style_signature f'"
proof -
  have a: "dict_get m ''text'' (PStr '''') = PStr ''''"
    and b: "dict_get m' ''text'' (PStr '''') = PStr ''''"
    using assms by (simp_all add: dict_get_def)
  from create_message_fingerprint_text [OF a, of E H s]
       create_message_fingerprint_text [OF b, of E H s]
  show ?thesis by force
qed

theorem missing_text_is_empty_text_witness:
  "map_of [(''id'', PInt 1)] ''text'' = None \<and>
   map_of [(''text'', PStr ''''), (''id'', PInt 1)] ''text'' = Some (PStr '''') \<and>
   (\<exists>f f'. fst (run_state (create_message_fingerprint demo_externals demo_helpers
                [(''id'', PInt 1)]) (0::nat)) = Inr f \<and>
     fst (run_state (create_message_fingerprint demo_externals demo_helpers
                [(''text'', PStr ''''), (''id'', PInt 1)]) 0) = Inr f' \<and>
     content_hash f = content_hash f' \<and>
     semantic_hash f = semantic_hash f' \<and>
     style_signature f = style_signature f')"
  using missing_text_is_empty_text [of "[(''id'', PInt 1)]"
      "[(''text'', PStr ''''), (''id'', PInt 1)]" demo_externals demo_helpers 0]
  by simp

section \<open>Properties of the cross-chat correlator\<close>

lemma subseq_sorted: "subseq xs ys \<Longrightarrow> sorted ys \<Longrightarrow> sorted xs"
  by (metis subseq_conv_nths sorted_nths)

lemma subseq_distinct: "subseq xs ys \<Longrightarrow> distinct ys \<Longrightarrow> distinct xs"
  by (metis subseq_conv_nths distinct_nthsI)

lemma chain_loop_subseq:
  assumes "subseq cur pre" and "\<forall>c\<in>set pp. subseq c pre"
  shows "\<forall>c\<in>set (chain_loop lf rest cur pp). subseq c (pre @ rest)"
  using assms
proof (induction rest arbitrary: cur pp pre)
  case Nil
  then show ?case by auto
next
  case (Cons m rest)
  have pp': "\<forall>c\<in>set pp. subseq c (pre @ [m])"
    using Cons.prems(2) by (auto intro: subseq_rev_drop_many)
  have cur': "subseq cur (pre @ [m])"
    using Cons.prems(1) by (rule subseq_rev_drop_many)
  show ?case
  proof (cases "lf (last cur) m")
    case True
    have "subseq (cur @ [m]) (pre @ [m])"
      using Cons.prems(1) by (simp add: list_emb_append_mono)
    from Cons.IH [OF this pp'] True show ?thesis by simp
  next
    case False
    have one: "subseq [m] (pre @ [m])" by (simp add: subseq_singleton_left)
    let ?pp = "if length cur > 1 then pp @ [cur] else pp"
    have "\<forall>c\<in>set ?pp. subseq c (pre @ [m])"
      using pp' cur' by auto
    from Cons.IH [OF one this] False show ?thesis by simp
  qed
qed

lemma chain_loop_length:
  assumes "\<forall>c\<in>set pp. 2 \<le> length c"
  shows "\<forall>c\<in>set (chain_loop lf rest cur pp). 2 \<le> length c"
  using assms
proof (induction rest arbitrary: cur pp)
  case Nil
  then show ?case by auto
next
  case (Cons m rest)
  let ?pp = "if length cur > 1 then pp @ [cur] else pp"
  have pp: "\<forall>c\<in>set ?pp. 2 \<le> length c"
    using Cons.prems by auto
  show ?case
  proof (cases "lf (last cur) m")
    case True
    with Cons.IH [OF Cons.prems] show ?thesis by simp
  next
    case False
    with Cons.IH [OF pp] show ?thesis by simp
  qed
qed

lemma chain_loop_unlinked:
  assumes "x \<in> S" and "set rest \<subseteq> S" and "\<forall>a\<in>S. \<forall>b\<in>S. \<not> lf a b"
  shows "chain_loop lf rest [x] pp = pp"
  using assms
  by (induction rest arbitrary: x) (auto simp: Let_def)

lemma sorted_by_date_Inr:
  "sorted_by_date ms = Inr xs \<Longrightarrow> xs = sort_key date_of ms \<and> list_all has_date ms"
  by (auto simp: sorted_by_date_def split: if_splits)

lemma sorted_by_date_ok: "list_all has_date ms \<Longrightarrow> sorted_by_date ms = Inr (sort_key date_of ms)"
  by (simp add: sorted_by_date_def)

lemma reconstruct_Nil: "reconstruct_propagation_path lf [] = Inr []"
  by (simp add: reconstruct_propagation_path_def)

lemma reconstruct_Inr:
  assumes "reconstruct_propagation_path lf ms = Inr paths" and "ms \<noteq> []"
  shows "\<exists>first rest. sort_key date_of ms = first # rest \<and> list_all has_date ms \<and>
     paths = chain_loop lf rest [first] []"
proof -
  from assms obtain xs where xs: "sorted_by_date ms = Inr xs"
    by (auto simp: reconstruct_propagation_path_def split: sum.splits)
  then have eq: "xs = sort_key date_of ms" and d: "list_all has_date ms"
    using sorted_by_date_Inr by blast+
  have "length xs = length ms" by (simp add: eq)
  with assms(2) obtain first rest where fr: "xs = first # rest"
    by (cases xs) auto
  with assms xs have "paths = chain_loop lf rest [first] []"
    by (simp add: reconstruct_propagation_path_def)
  with fr eq d show ?thesis by auto
qed

text \<open>
  C2 (amended). Every chain that \<open>_reconstruct_propagation_path\<close> returns is a
  subsequence of the date-sorted input, so its timestamps are non-decreasing. The code
  keeps no record of the messages it has placed: a chain repeats an id only when the input
  list holds that id twice, and the ids of a chain are distinct when the ids of the input
  are distinct.
\<close>

theorem propagation_path_chains:
  assumes "reconstruct_propagation_path lf ms = Inr paths" and "ch \<in> set paths"
  shows "subseq ch (sort_key date_of ms) \<and>
         sorted (map date_of ch) \<and>
         list_all has_date ch \<and>
         (distinct (chain_ids ms) \<longrightarrow> distinct (chain_ids ch))"
proof -
  have ne: "ms \<noteq> []"
  proof
    assume "ms = []"
    with assms(1) have "paths = []" by (simp add: reconstruct_Nil)
    with assms(2) show False by simp
  qed
  from reconstruct_Inr [OF assms(1) ne] obtain first rest where
    s: "sort_key date_of ms = first # rest" and d: "list_all has_date ms"
    and c: "paths = chain_loop lf rest [first] []"
    by blast
  have "\<forall>c\<in>set (chain_loop lf rest [first] []). subseq c ([first] @ rest)"
    by (rule chain_loop_subseq) simp_all
  with assms(2) c s have sub: "subseq ch (sort_key date_of ms)" by simp
  have "sorted (map date_of (sort_key date_of ms))" by (rule sorted_sort_key)
  with subseq_map [OF sub, of date_of] have srt: "sorted (map date_of ch)"
    by (rule subseq_sorted)
  have mem: "x \<in> set ms" if "x \<in> set ch" for x
    by (rule list_emb_set [OF sub that]) simp
  have hd: "list_all has_date ch"
    unfolding list_all_iff
  proof
    fix x assume "x \<in> set ch"
    then have "x \<in> set ms" by (rule mem)
    with d show "has_date x" by (simp add: list_all_iff)
  qed
  have ids: "distinct (chain_ids ch)" if "distinct (chain_ids ms)"
  proof -
    have "distinct (map (\<lambda>m. map_of m ''id'') (sort_key date_of ms))"
      using that unfolding chain_ids_def by (simp add: distinct_map)
    with subseq_map [OF sub, of "\<lambda>m. map_of m ''id''"] show ?thesis
      unfolding chain_ids_def by (rule subseq_distinct)
  qed
  show ?thesis
    using sub srt hd ids by (intro conjI impI)
qed

lemma path_A_B:
  "reconstruct_propagation_path same_text_within_day [msg_B, msg_A] = Inr [[msg_A, msg_B]]"
  by (simp add: reconstruct_propagation_path_def sorted_by_date_def has_date_def date_of_def
      same_text_within_day_def msg_A_def msg_B_def Let_def)

theorem propagation_path_chains_witness:
  "reconstruct_propagation_path same_text_within_day [msg_B, msg_A] = Inr [[msg_A, msg_B]] \<and>
   [msg_A, msg_B] \<in> set [[msg_A, msg_B]] \<and>
   subseq [msg_A, msg_B] (sort_key date_of [msg_B, msg_A]) \<and>
   sorted (map date_of [msg_A, msg_B]) \<and>
   list_all has_date [msg_A, msg_B] \<and>
   distinct (chain_ids [msg_B, msg_A]) \<and>
   distinct (chain_ids [msg_A, msg_B])"
proof -
  have d: "distinct (chain_ids [msg_B, msg_A])"
    by (simp add: chain_ids_def msg_A_def msg_B_def)
  from propagation_path_chains [OF path_A_B, of "[msg_A, msg_B]"] d path_A_B
  show ?thesis by simp
qed

text \<open>The claim as stated fails: a list of similar messages that holds message A twice
  yields the chain \<open>[A, A]\<close>, in which A's id appears twice.\<close>

theorem propagation_path_repeats_message:
  "reconstruct_propagation_path same_text_within_day [msg_A, msg_A] = Inr [[msg_A, msg_A]] \<and>
   \<not> distinct (chain_ids [msg_A, msg_A])"
  by (simp add: reconstruct_propagation_path_def sorted_by_date_def has_date_def date_of_def
      same_text_within_day_def msg_A_def chain_ids_def Let_def)

text \<open>
  C7 (amended). A chain is recorded only when it has more than one message. When the
  list of similar messages holds at most one message, or no two of its messages pass the
  forward test, the reconstruction returns the empty list of chains; every chain of every
  result has at least two messages.
\<close>

theorem propagation_path_without_links:
  "(list_all has_date ms \<and> (length ms \<le> 1 \<or> (\<forall>a\<in>set ms. \<forall>b\<in>set ms. \<not> lf a b))
      \<longrightarrow> reconstruct_propagation_path lf ms = Inr []) \<and>
   (\<forall>paths ch. reconstruct_propagation_path lf ms = Inr paths \<and> ch \<in> set paths
      \<longrightarrow> 2 \<le> length ch)"
proof (intro conjI impI allI)
  assume a: "list_all has_date ms \<and> (length ms \<le> 1 \<or> (\<forall>a\<in>set ms. \<forall>b\<in>set ms. \<not> lf a b))"
  show "reconstruct_propagation_path lf ms = Inr []"
  proof (cases "sort_key date_of ms")
    case Nil
    then have "length ms = 0" by (metis length_sort list.size(3))
    then show ?thesis by (simp add: reconstruct_Nil)
  next
    case (Cons first rest)
    then have ne: "ms \<noteq> []" by auto
    have sets: "set (first # rest) = set ms" by (metis Cons set_sort)
    have "chain_loop lf rest [first] [] = []"
    proof (cases "length ms \<le> 1")
      case True
      then have "rest = []" by (metis Cons length_sort length_Cons Suc_le_mono le_zero_eq length_0_conv One_nat_def)
      then show ?thesis by simp
    next
      case False
      with a have "\<forall>a\<in>set ms. \<forall>b\<in>set ms. \<not> lf a b" by simp
      then show ?thesis
        using sets by (intro chain_loop_unlinked [where S = "set ms"]) auto
    qed
    with a ne Cons show ?thesis
      by (simp add: reconstruct_propagation_path_def sorted_by_date_ok)
  qed
next
  fix paths ch
  assume b: "reconstruct_propagation_path lf ms = Inr paths \<and> ch \<in> set paths"
  then have ne: "ms \<noteq> []" using reconstruct_Nil [of lf] by auto
  from reconstruct_Inr [of lf ms paths] b ne obtain first rest where
    "paths = chain_loop lf rest [first] []" by blast
  moreover have "\<forall>c\<in>set (chain_loop lf rest [first] []). 2 \<le> length c"
    by (rule chain_loop_length) simp
  ultimately show "2 \<le> length ch" using b by simp
qed

theorem propagation_path_without_links_witness:
  "list_all has_date [msg_B] \<and> length [msg_B] \<le> 1 \<and>
   reconstruct_propagation_path same_text_within_day [msg_B] = Inr [] \<and>
   reconstruct_propagation_path same_text_within_day [msg_B, msg_A] = Inr [[msg_A, msg_B]] \<and>
   [msg_A, msg_B] \<in> set [[msg_A, msg_B]] \<and> 2 \<le> length [msg_A, msg_B]"
proof -
  have d: "list_all has_date [msg_B]" by (simp add: has_date_def msg_B_def)
  from propagation_path_without_links [of "[msg_B]" same_text_within_day] d
  have "reconstruct_propagation_path same_text_within_day [msg_B] = Inr []" by simp
  moreover from propagation_path_without_links [of "[msg_B, msg_A]" same_text_within_day] path_A_B
  have "2 \<le> length [msg_A, msg_B]" by simp
  ultimately show ?thesis using d path_A_B by simp
qed

text \<open>The claim as stated fails: for the target message B alone the result is the
  empty list, not the one-element chain \<open>[B]\<close>; so it is for the two unrelated messages A
  and C.\<close>

theorem propagation_path_single_message_empty:
  "reconstruct_propagation_path same_text_within_day [msg_B] = Inr [] \<and>
   reconstruct_propagation_path same_text_within_day [msg_B] \<noteq> Inr [[msg_B]] \<and>
   reconstruct_propagation_path same_text_within_day [msg_A, msg_C] = Inr []"
  by (simp add: reconstruct_propagation_path_def sorted_by_date_def has_date_def date_of_def
      same_text_within_day_def msg_A_def msg_B_def msg_C_def Let_def)

text \<open>
  C6 (amended). A message whose text is empty or missing is fingerprinted without an
  error, and its content hash is the content hash of the empty string: the same value for
  every such message fingerprinted in the same engine state. The exact-match query has no
  rule for empty texts: for an empty-text target it selects the stored row of any other
  empty-text message.
\<close>

theorem empty_text_content_hash:
  assumes "dict_get m1 ''text'' (PStr '''') = PStr ''''"
      and "dict_get m2 ''text'' (PStr '''') = PStr ''''"
  shows "\<exists>f1 f2. fst (run_state (create_message_fingerprint E H m1) s) = Inr f1 \<and>
     fst (run_state (create_message_fingerprint E H m2) s) = Inr f2 \<and>
     content_hash f1 = fst (run_state (generate_content_hash E H '''') s) \<and>
     content_hash f2 = content_hash f1 \<and>
     select_exact_matches f1 [ingest_row m2 f2] = [ingest_row m2 f2]"
proof -
  from create_message_fingerprint_text [OF assms(1), of E H s] obtain f1 where
    f1: "fst (run_state (create_message_fingerprint E H m1) s) = Inr f1"
      "content_hash f1 = fst (run_state (generate_content_hash E H '''') s)"
    by force
  from create_message_fingerprint_text [OF assms(2), of E H s] obtain f2 where
    f2: "fst (run_state (create_message_fingerprint E H m2) s) = Inr f2"
      "content_hash f2 = fst (run_state (generate_content_hash E H '''') s)"
    by force
  have "select_exact_matches f1 [ingest_row m2 f2] = [ingest_row m2 f2]"
    using f1(2) f2(2) by (simp add: select_exact_matches_def ingest_row_def)
  with f1 f2 show ?thesis by simp
qed

theorem empty_text_content_hash_witness:
  "dict_get empty_msg_1 ''text'' (PStr '''') = PStr '''' \<and>
   dict_get empty_msg_2 ''text'' (PStr '''') = PStr '''' \<and>
   (\<exists>f1 f2. fst (run_state (create_message_fingerprint demo_externals demo_helpers empty_msg_1) (0::nat)) = Inr f1 \<and>
     fst (run_state (create_message_fingerprint demo_externals demo_helpers empty_msg_2) 0) = Inr f2 \<and>
     content_hash f1 = fst (run_state (generate_content_hash demo_externals demo_helpers '''') 0) \<and>
     content_hash f2 = content_hash f1 \<and>
     select_exact_matches f1 [ingest_row empty_msg_2 f2] = [ingest_row empty_msg_2 f2])"
proof -
  have a: "dict_get empty_msg_1 ''text'' (PStr '''') = PStr ''''"
    by (simp add: dict_get_def empty_msg_1_def)
  have b: "dict_get empty_msg_2 ''text'' (PStr '''') = PStr ''''"
    by (simp add: dict_get_def empty_msg_2_def)
  from empty_text_content_hash [OF a b, of demo_externals demo_helpers 0] a b
  show ?thesis by simp
qed

text \<open>The claim as stated fails: two empty-text messages with different ids, senders and
  chats are matched as duplicates by the content-hash lookup.\<close>

theorem empty_text_messages_match:
  "(case (fst (run_state (create_message_fingerprint demo_externals demo_helpers empty_msg_1) (0::nat)),
          fst (run_state (create_message_fingerprint demo_externals demo_helpers empty_msg_2) (0::nat))) of
      (Inr f1, Inr f2) \<Rightarrow>
         select_exact_matches f1 [ingest_row empty_msg_2 f2] = [ingest_row empty_msg_2 f2]
    | _ \<Rightarrow> False)"
proof -
  have a: "dict_get empty_msg_1 ''text'' (PStr []) = PStr []"
    by (simp add: dict_get_def empty_msg_1_def)
  have b: "dict_get empty_msg_2 ''text'' (PStr []) = PStr []"
    by (simp add: dict_get_def empty_msg_2_def)
  from create_message_fingerprint_text [OF a, of demo_externals demo_helpers 0] obtain f1 where
    f1: "fst (run_state (create_message_fingerprint demo_externals demo_helpers empty_msg_1) 0) = Inr f1"
      "content_hash f1 = fst (run_state (generate_content_hash demo_externals demo_helpers []) 0)"
    by force
  from create_message_fingerprint_text [OF b, of demo_externals demo_helpers 0] obtain f2 where
    f2: "fst (run_state (create_message_fingerprint demo_externals demo_helpers empty_msg_2) 0) = Inr f2"
      "content_hash f2 = fst (run_state (generate_content_hash demo_externals demo_helpers []) 0)"
    by force
  show ?thesis
    by (simp add: f1 f2 select_exact_matches_def ingest_row_def)
qed

section \<open>Properties of the source attribution\<close>

lemma forwarding_chain_loop_entries:
  assumes "forwarding_chain_loop fpv dm n cur acc = Inr chain"
    and "\<forall>e\<in>set acc. py_keys e = hop_keys \<or> py_keys e = original_keys"
  shows "length chain \<le> length acc + n \<and>
         (\<forall>e\<in>set chain. py_keys e = hop_keys \<or> py_keys e = original_keys)"
  using assms
proof (induction n arbitrary: cur acc)
  case 0
  then show ?case by simp
next
  case (Suc n)
  show ?case
  proof (cases "truthy cur")
    case False
    with Suc.prems show ?thesis by simp
  next
    case t: True
    show ?thesis
    proof (cases "truthy (fpv cur)")
      case True
      from Suc.prems(1) t True obtain u d where
        u: "py_getitem cur ''user_id'' = Inr u" and d: "py_getitem cur ''date'' = Inr d"
        by (auto simp: Let_def split: sum.splits)
      let ?acc = "acc @ [PDict [(''message'', fpv cur), (''forwarder'', u), (''timestamp'', d),
                          (''modifications'', dm (fpv cur) cur)]]"
      have run: "forwarding_chain_loop fpv dm n (fpv cur) ?acc = Inr chain"
        using Suc.prems(1) t True u d by (simp add: Let_def)
      have inv: "\<forall>e\<in>set ?acc. py_keys e = hop_keys \<or> py_keys e = original_keys"
        using Suc.prems(2) by (auto simp: hop_keys_def)
      from Suc.IH [OF run inv] show ?thesis by simp
    next
      case False
      from Suc.prems(1) t False obtain d where
        d: "py_getitem cur ''date'' = Inr d"
        by (auto simp: Let_def split: sum.splits)
      have "chain = acc @ [PDict [(''message'', cur), (''status'', PStr ''original''), (''timestamp'', d)]]"
        using Suc.prems(1) t False d by (simp add: Let_def)
      with Suc.prems(2) show ?thesis by (auto simp: original_keys_def)
    qed
  qed
qed

lemma has_key_truthy: "has_key v k \<Longrightarrow> truthy v"
  by (cases v) (auto simp: has_key_def split: option.splits)

lemma forwarding_chain_loop_capped:
  assumes "\<forall>k<n. has_key ((fpv ^^ k) cur) ''user_id'' \<and> has_key ((fpv ^^ k) cur) ''date'' \<and>
                truthy ((fpv ^^ Suc k) cur)"
  shows "\<exists>hops. forwarding_chain_loop fpv dm n cur acc = Inr (acc @ hops) \<and> length hops = n \<and>
           (\<forall>e\<in>set hops. py_keys e = hop_keys)"
  using assms
proof (induction n arbitrary: cur acc)
  case 0
  then show ?case by simp
next
  case (Suc n)
  from Suc.prems have k0: "has_key cur ''user_id''" "has_key cur ''date''" "truthy (fpv cur)"
    by force+
  then obtain u d where
    u: "py_getitem cur ''user_id'' = Inr u" and d: "py_getitem cur ''date'' = Inr d"
    by (auto simp: has_key_def split: sum.splits)
  have t: "truthy cur" using k0(1) by (rule has_key_truthy)
  let ?e = "PDict [(''message'', fpv cur), (''forwarder'', u), (''timestamp'', d),
                          (''modifications'', dm (fpv cur) cur)]"
  have step: "forwarding_chain_loop fpv dm (Suc n) cur acc =
      forwarding_chain_loop fpv dm n (fpv cur) (acc @ [?e])"
    using t k0(3) u d by (simp add: Let_def)
  have "\<forall>k<n. has_key ((fpv ^^ k) (fpv cur)) ''user_id'' \<and> has_key ((fpv ^^ k) (fpv cur)) ''date'' \<and>
                truthy ((fpv ^^ Suc k) (fpv cur))"
  proof (intro allI impI)
    fix k assume "k < n"
    then have "Suc k < Suc n" by simp
    with Suc.prems have "has_key ((fpv ^^ Suc k) cur) ''user_id'' \<and> has_key ((fpv ^^ Suc k) cur) ''date'' \<and>
                truthy ((fpv ^^ Suc (Suc k)) cur)" by blast
    then show "has_key ((fpv ^^ k) (fpv cur)) ''user_id'' \<and> has_key ((fpv ^^ k) (fpv cur)) ''date'' \<and>
                truthy ((fpv ^^ Suc k) (fpv cur))"
      by (simp add: funpow_swap1)
  qed
  from Suc.IH [OF this, of "acc @ [?e]"] obtain hops where
    h: "forwarding_chain_loop fpv dm n (fpv cur) (acc @ [?e]) = Inr ((acc @ [?e]) @ hops)"
       "length hops = n" "\<forall>e\<in>set hops. py_keys e = hop_keys"
    by blast
  have "forwarding_chain_loop fpv dm (Suc n) cur acc = Inr (acc @ (?e # hops))"
    using step h(1) by simp
  moreover have "length (?e # hops) = Suc n" using h(2) by simp
  moreover have "\<forall>e\<in>set (?e # hops). py_keys e = hop_keys"
    using h(3) by (simp add: hop_keys_def)
  ultimately show ?case by blast
qed

text \<open>
  C3 (amended). \<open>_reconstruct_forwarding_chain\<close> walks at most 10 hops: a returned chain
  has at most 10 entries. Every entry is a forwarding entry (message, forwarder,
  timestamp, modifications) or the entry of the original (message, status, timestamp);
  no entry, and nothing else in the result, is a MaxHopsExceeded flag. When each of the
  ten messages visited has a sender and a date and an earlier version, the cap is reached:
  the call returns, without an exception, ten forwarding entries and no original.
\<close>

theorem forwarding_chain_capped:
  "(\<forall>chain. reconstruct_forwarding_chain fpv dm message = Inr chain \<longrightarrow>
      length chain \<le> 10 \<and>
      (\<forall>e\<in>set chain. py_keys e = hop_keys \<or> py_keys e = original_keys)) \<and>
   ((\<forall>k<10. has_key ((fpv ^^ k) (PDict message)) ''user_id'' \<and>
             has_key ((fpv ^^ k) (PDict message)) ''date'' \<and>
             truthy ((fpv ^^ Suc k) (PDict message))) \<longrightarrow>
      (\<exists>chain. reconstruct_forwarding_chain fpv dm message = Inr chain \<and>
         length chain = 10 \<and> (\<forall>e\<in>set chain. py_keys e = hop_keys)))"
proof (intro conjI allI impI)
  fix chain
  assume a: "reconstruct_forwarding_chain fpv dm message = Inr chain"
  then obtain c where c: "forwarding_chain_loop fpv dm 10 (PDict message) [] = Inr c"
    and r: "chain = rev c"
    by (auto simp: reconstruct_forwarding_chain_def max_iterations_def split: sum.splits)
  from forwarding_chain_loop_entries [OF c] have
    "length c \<le> 10" "\<forall>e\<in>set c. py_keys e = hop_keys \<or> py_keys e = original_keys"
    by simp_all
  with r show "length chain \<le> 10" "\<forall>e\<in>set chain. py_keys e = hop_keys \<or> py_keys e = original_keys"
    by simp_all
next
  assume "\<forall>k<10. has_key ((fpv ^^ k) (PDict message)) ''user_id'' \<and>
             has_key ((fpv ^^ k) (PDict message)) ''date'' \<and>
             truthy ((fpv ^^ Suc k) (PDict message))"
  from forwarding_chain_loop_capped [OF this, of dm "[]"] obtain hops where
    h: "forwarding_chain_loop fpv dm 10 (PDict message) [] = Inr hops"
       "length hops = 10" "\<forall>e\<in>set hops. py_keys e = hop_keys"
    by auto
  then have "reconstruct_forwarding_chain fpv dm message = Inr (rev hops)"
    by (simp add: reconstruct_forwarding_chain_def max_iterations_def)
  with h show "\<exists>chain. reconstruct_forwarding_chain fpv dm message = Inr chain \<and>
         length chain = 10 \<and> (\<forall>e\<in>set chain. py_keys e = hop_keys)"
    by simp
qed

lemma earlier_copy_msg_B:
  "(earlier_copy ^^ k) (PDict msg_B) =
     PDict [(''id'', PInt 2), (''user_id'', PInt 20), (''chat_id'', PInt 2),
            (''date'', PInt (3600 - int k)), (''text'', PStr ''Meeting at 5pm'')]"
  by (induction k) (simp_all add: msg_B_def)

text \<open>The claim as stated fails: on a store where every message has an earlier version
  the walk from message B stops at the cap, and the result is ten forwarding entries whose
  only keys are message, forwarder, timestamp and modifications. No flag says that the cap
  was reached.\<close>

theorem forwarding_chain_no_flag:
  "map_sum id (map py_keys) (reconstruct_forwarding_chain earlier_copy no_modifications msg_B) =
     Inr (replicate 10 [''message'', ''forwarder'', ''timestamp'', ''modifications''])"
  by (simp add: reconstruct_forwarding_chain_def max_iterations_def eval_nat_numeral msg_B_def
      Let_def no_modifications_def)

theorem forwarding_chain_capped_witness:
  "(\<exists>chain. reconstruct_forwarding_chain earlier_copy no_modifications msg_B = Inr chain \<and>
      length chain \<le> 10 \<and>
      list_all (\<lambda>e. py_keys e = hop_keys \<or> py_keys e = original_keys) chain \<and>
      length chain = 10 \<and> list_all (\<lambda>e. py_keys e = hop_keys) chain)"
proof -
  have "\<forall>k<10. has_key ((earlier_copy ^^ k) (PDict msg_B)) ''user_id'' \<and>
             has_key ((earlier_copy ^^ k) (PDict msg_B)) ''date'' \<and>
             truthy ((earlier_copy ^^ Suc k) (PDict msg_B))"
    unfolding earlier_copy_msg_B by (simp add: has_key_def)
  with forwarding_chain_capped [of earlier_copy no_modifications msg_B]
  show ?thesis by (auto simp: list_all_iff)
qed

section \<open>Properties of the forwarding monitor\<close>

lemma trust_loop_unavailable:
  assumes "list_all (\<lambda>m. has_key m ''chat_id'' \<and> has_key m ''user_id'') similar"
    and "\<forall>a b. rel a b = Inl e"
  shows "trust_loop rel chat user similar =
           (if list_ex (crosses_chat chat) similar then Inl e else Inr False)"
  using assms
proof (induction similar)
  case Nil
  then show ?case by simp
next
  case (Cons m rest)
  from Cons.prems(1) obtain c u where
    c: "py_getitem m ''chat_id'' = Inr c" and u: "py_getitem m ''user_id'' = Inr u"
    by (auto simp: has_key_def split: sum.splits)
  from Cons.prems have IH: "trust_loop rel chat user rest =
           (if list_ex (crosses_chat chat) rest then Inl e else Inr False)"
    by (intro Cons.IH) simp_all
  show ?case
  proof (cases "py_eq c chat")
    case True
    then have "\<not> crosses_chat chat m" by (simp add: crosses_chat_def c)
    with True IH c show ?thesis by simp
  next
    case False
    then have "crosses_chat chat m" by (simp add: crosses_chat_def c)
    with False c u Cons.prems(2) show ?thesis by simp
  qed
qed

lemma analyze_message_leakage_keys:
  assumes "analyze_message_leakage H track message = Inr r"
  shows "map fst r = [''message_id'', ''leak_confidence'', ''leak_indicators'',
            ''propagation_path'', ''suspected_leaker'', ''recommended_actions''] \<and>
         (\<exists>li. map_of r ''leak_confidence'' = Some (calculate_leak_confidence H li))"
  using assms
  by (auto simp: analyze_message_leakage_def Let_def split: sum.splits)

text \<open>
  C8 (amended). The trust provider is called inside \<open>_check_trust_network\<close> with no
  handler around it. With a provider that raises \<open>e\<close> on every call and well-formed
  similar messages: if a similar message comes from another chat, the provider is
  consulted and \<open>analyze_message_leakage\<close> raises \<open>e\<close>; if none does (as when the
  propagation analysis has no \<open>similar_messages\<close> entry), the provider is not consulted
  and the trust check returns False. A result, when there is one, has exactly six keys;
  \<open>confidence_degraded\<close> is not among them.
\<close>

theorem trust_provider_failure:
  assumes pa: "track message = Inr pa"
    and sims: "dict_get pa ''similar_messages'' (PList []) = PList similar"
    and chat: "py_getitem (PDict message) ''chat_id'' = Inr chat"
    and user: "py_getitem (PDict message) ''user_id'' = Inr user"
    and wf: "list_all (\<lambda>m. has_key m ''chat_id'' \<and> has_key m ''user_id'') similar"
    and down: "\<forall>a b. calculate_relationship_score H a b = Inl e"
  shows "(list_ex (crosses_chat chat) similar \<longrightarrow>
            analyze_message_leakage H track message = Inl e) \<and>
         (\<not> list_ex (crosses_chat chat) similar \<longrightarrow>
            check_trust_network (calculate_relationship_score H) message pa = Inr False) \<and>
         (\<forall>r. analyze_message_leakage H track message = Inr r \<longrightarrow>
            map fst r = [''message_id'', ''leak_confidence'', ''leak_indicators'',
              ''propagation_path'', ''suspected_leaker'', ''recommended_actions''])"
proof -
  have ctn: "check_trust_network (calculate_relationship_score H) message pa =
      (if list_ex (crosses_chat chat) similar then Inl e else Inr False)"
    using trust_loop_unavailable [OF wf down, of chat user] chat user sims
    by (simp add: check_trust_network_def)
  have a: "analyze_message_leakage H track message = Inl e" if "list_ex (crosses_chat chat) similar"
    using that ctn pa sims by (simp add: analyze_message_leakage_def)
  have b: "check_trust_network (calculate_relationship_score H) message pa = Inr False"
    if "\<not> list_ex (crosses_chat chat) similar"
    using that ctn by simp
  from a b analyze_message_leakage_keys [of H track message] show ?thesis by blast
qed

theorem trust_provider_failure_witness:
  "analyze_message_leakage unavailable_trust_helpers
      (\<lambda>m. Inr [(''similar_messages'', PList [PDict msg_B])]) msg_A =
      Inl (Raised ''trust provider unavailable'') \<and>
   list_ex (crosses_chat (PInt 1)) [PDict msg_B] \<and>
   \<not> list_ex (crosses_chat (PInt 1)) [] \<and>
   check_trust_network (calculate_relationship_score unavailable_trust_helpers) msg_A [] = Inr False"
proof -
  have down: "\<forall>a b. calculate_relationship_score unavailable_trust_helpers a b =
      Inl (Raised ''trust provider unavailable'')"
    by (simp add: unavailable_trust_helpers_def)
  have chat: "py_getitem (PDict msg_A) ''chat_id'' = Inr (PInt 1)"
    and user: "py_getitem (PDict msg_A) ''user_id'' = Inr (PInt 10)"
    by (simp_all add: msg_A_def)
  have wf: "list_all (\<lambda>m. has_key m ''chat_id'' \<and> has_key m ''user_id'') [PDict msg_B]"
    by (simp add: has_key_def msg_B_def)
  have x: "list_ex (crosses_chat (PInt 1)) [PDict msg_B]"
    by (simp add: crosses_chat_def msg_B_def py_eq_def)
  have s1: "dict_get [(''similar_messages'', PList [PDict msg_B])] ''similar_messages'' (PList []) =
      PList [PDict msg_B]"
    by (simp add: dict_get_def)
  have s2: "dict_get [] ''similar_messages'' (PList []) = PList []"
    by (simp add: dict_get_def)
  from trust_provider_failure [of "\<lambda>m. Inr [(''similar_messages'', PList [PDict msg_B])]" msg_A
      "[(''similar_messages'', PList [PDict msg_B])]" "[PDict msg_B]" "PInt 1" "PInt 10"
      unavailable_trust_helpers, OF refl s1 chat user wf down] x
  have "analyze_message_leakage unavailable_trust_helpers
      (\<lambda>m. Inr [(''similar_messages'', PList [PDict msg_B])]) msg_A =
      Inl (Raised ''trust provider unavailable'')" by simp
  moreover from trust_provider_failure [of "\<lambda>m. Inr []" msg_A "[]" "[]" "PInt 1" "PInt 10"
      unavailable_trust_helpers, OF refl s2 chat user _ down]
  have "check_trust_network (calculate_relationship_score unavailable_trust_helpers) msg_A [] = Inr False"
    by simp
  ultimately show ?thesis using x by simp
qed

text \<open>The claim as stated fails: for message A with the similar message B from another
  chat and a trust provider that is unavailable, scoring ends in the provider's exception,
  not in a result.\<close>

theorem trust_provider_exception_escapes:
  "analyze_message_leakage unavailable_trust_helpers
      (\<lambda>m. Inr [(''similar_messages'', PList [PDict msg_B])]) msg_A =
      Inl (Raised ''trust provider unavailable'')"
  by (simp add: analyze_message_leakage_def check_trust_network_def dict_get_def msg_A_def
      msg_B_def py_eq_def unavailable_trust_helpers_def)




lemma monitor_loop_crash_at:
  assumes "after_cycles cycle k s = Some sk" and "cycle sk = Inl e" and "k < n"
  shows "monitor_loop (Inr d) cycle n s acc = Crashed e (acc @ replicate k d)"
  using assms
proof (induction k arbitrary: s acc n)
  case 0
  then obtain n' where "n = Suc n'" by (cases n) auto
  with 0 show ?case by simp
next
  case (Suc k)
  from Suc.prems(1) obtain s' where c: "cycle s = Inr s'" and a: "after_cycles cycle k s' = Some sk"
    by (auto split: sum.splits)
  from Suc.prems(3) obtain n' where n: "n = Suc n'" and k: "k < n'" by (cases n) auto
  from Suc.IH [OF a Suc.prems(2) k, of "acc @ [d]"]
  show ?case by (simp add: n c replicate_app_Cons_same)
qed

text \<open>
  C9. The claim: an exception in one cycle does not end a monitoring loop; it is logged and
  the loop goes on after a backoff. The two loops have no handler. In
  \<open>monitor_conversation_leaks\<close>, when the cycles before cycle \<open>k\<close> complete and cycle \<open>k\<close>
  raises \<open>e\<close>, the loop ends there with \<open>e\<close>; up to then it has slept 300 seconds after
  each cycle and never longer. \<open>monitor_manipulation_activity\<close> ends in its first
  cycle: with the cycle's own exception, or with the NameError of the sleep.
\<close>

theorem monitoring_loops_end_on_exception:
  "(after_cycles (leak_cycle M analyze) k s = Some sk \<and> leak_cycle M analyze sk = Inl e \<and> k < n
      \<longrightarrow> monitor_conversation_leaks M analyze n s = Crashed e (replicate k 300)) \<and>
   (0 < n \<longrightarrow> monitor_manipulation_activity MH n t =
      Crashed (case manipulation_cycle MH t of Inl e' \<Rightarrow> e' | Inr t' \<Rightarrow> NameError ''asyncio'') [])"
proof (intro conjI impI)
  assume "after_cycles (leak_cycle M analyze) k s = Some sk \<and> leak_cycle M analyze sk = Inl e \<and> k < n"
  then show "monitor_conversation_leaks M analyze n s = Crashed e (replicate k 300)"
    using monitor_loop_crash_at [of "leak_cycle M analyze" k s sk e n 300 "[]"]
    by (simp add: monitor_conversation_leaks_def)
next
  assume "0 < n"
  then obtain n' where "n = Suc n'" by (cases n) auto
  then show "monitor_manipulation_activity MH n t =
      Crashed (case manipulation_cycle MH t of Inl e' \<Rightarrow> e' | Inr t' \<Rightarrow> NameError ''asyncio'') []"
    by (simp add: monitor_manipulation_activity_def split: sum.splits)
qed

theorem monitoring_loops_end_on_exception_witness:
  "after_cycles (leak_cycle flaky_source
      (analyze_message_leakage unavailable_trust_helpers (\<lambda>m. Inr []))) 2 0 = Some 2 \<and>
   leak_cycle flaky_source (analyze_message_leakage unavailable_trust_helpers (\<lambda>m. Inr [])) 2 =
      Inl (Raised ''connection lost'') \<and>
   (2::nat) < 5 \<and>
   monitor_conversation_leaks flaky_source
      (analyze_message_leakage unavailable_trust_helpers (\<lambda>m. Inr [])) 5 0 =
      Crashed (Raised ''connection lost'') [300, 300] \<and>
   monitor_conversation_leaks failing_source
      (analyze_message_leakage unavailable_trust_helpers (\<lambda>m. Inr [])) 5 0 =
      Crashed (Raised ''connection lost'') [] \<and>
   monitor_manipulation_activity steady_feed 5 0 = Crashed (NameError ''asyncio'') []"
proof -
  let ?A = "analyze_message_leakage unavailable_trust_helpers (\<lambda>m. Inr [])"
  have a: "after_cycles (leak_cycle flaky_source ?A) 2 0 = Some 2"
    by (simp add: eval_nat_numeral leak_cycle_def flaky_source_def)
  have b: "leak_cycle flaky_source ?A 2 = Inl (Raised ''connection lost'')"
    by (simp add: leak_cycle_def flaky_source_def)
  have c: "after_cycles (leak_cycle failing_source ?A) 0 0 = Some 0" by simp
  have d: "leak_cycle failing_source ?A 0 = Inl (Raised ''connection lost'')"
    by (simp add: leak_cycle_def failing_source_def)
  have e: "manipulation_cycle steady_feed 0 = Inr 1"
    by (simp add: manipulation_cycle_def steady_feed_def detect_real_time_manipulation_def)
  from monitoring_loops_end_on_exception [of flaky_source ?A 2 0 2 "Raised ''connection lost''" 5
      steady_feed 0] a b e
  have "monitor_conversation_leaks flaky_source ?A 5 0 = Crashed (Raised ''connection lost'') [300, 300]"
    and "monitor_manipulation_activity steady_feed 5 0 = Crashed (NameError ''asyncio'') []"
    by (simp_all add: eval_nat_numeral)
  moreover from monitoring_loops_end_on_exception [of failing_source ?A 0 0 0
      "Raised ''connection lost''" 5 steady_feed 0] c d
  have "monitor_conversation_leaks failing_source ?A 5 0 = Crashed (Raised ''connection lost'') []"
    by simp
  ultimately show ?thesis using a b by simp
qed

end
